theory Spec2Isabelle
  imports Main "HOL-Library.AList"
begin

section \<open>JavaScript numbers\<close>

text \<open>
  A Number is an IEEE-754 double. \<open>Finite neg m e\<close> stands for \<open>(-1)^neg * m * 2^e\<close>; the
  doubles are the values with \<open>m < 2^53\<close>, \<open>-1074 \<le> e \<le> 971\<close> and \<open>2^52 \<le> m\<close> unless
  \<open>e = -1074\<close> (\<open>is_double\<close>). \<open>Finite True 0 (-1074)\<close> is the negative zero.
\<close>

datatype number = NaN | Infinity bool | Finite bool nat int

definition is_double :: "number \<Rightarrow> bool" where
  "is_double x =
     (case x of
        Finite neg m e \<Rightarrow> m < 2 ^ 53 \<and> - 1074 \<le> e \<and> e \<le> 971 \<and> (e = - 1074 \<or> 2 ^ 52 \<le> m)
      | _ \<Rightarrow> True)"

fun bit_length :: "nat \<Rightarrow> nat" where
  "bit_length n = (if n = 0 then 0 else Suc (bit_length (n div 2)))"

definition round_half_even :: "nat \<Rightarrow> nat \<Rightarrow> nat" where
  "round_half_even n d =
     (let q = n div d; r = n mod d
      in if 2 * r < d then q
         else if d < 2 * r then q + 1
         else if even q then q else q + 1)"

text \<open>\<open>floor_log2 n d\<close> is the integer \<open>g\<close> with \<open>2^g \<le> n / d < 2^(g+1)\<close>, for positive \<open>n\<close>, \<open>d\<close>.\<close>

definition floor_log2 :: "nat \<Rightarrow> nat \<Rightarrow> int" where
  "floor_log2 n d =
     (let g = int (bit_length n) - int (bit_length d)
      in if (if 0 \<le> g then d * 2 ^ nat g \<le> n else d \<le> n * 2 ^ nat (- g)) then g else g - 1)"

text \<open>
  The Number value for the rational \<open>n / d\<close> with the sign \<open>neg\<close>: round to nearest, ties to
  even, the subnormals below \<open>2^-1022\<close>, the infinities from \<open>2^1024\<close> on.
\<close>

definition to_number :: "bool \<Rightarrow> nat \<Rightarrow> nat \<Rightarrow> number" where
  "to_number neg n d =
     (if n = 0 then Finite neg 0 (- 1074)
      else
        let e = max (floor_log2 n d - 52) (- 1074);
            m = (if 0 \<le> e then round_half_even n (d * 2 ^ nat e)
                 else round_half_even (n * 2 ^ nat (- e)) d);
            m' = (if m = 2 ^ 53 then 2 ^ 52 else m);
            e' = (if m = 2 ^ 53 then e + 1 else e)
        in if 971 < e' then Infinity neg else Finite neg m' e')"

text \<open>The Number a decimal literal \<open>s * 10^t\<close> denotes, as JSON text or source text gives it.\<close>

definition decimal :: "bool \<Rightarrow> nat \<Rightarrow> int \<Rightarrow> number" where
  "decimal neg s t =
     (if 0 \<le> t then to_number neg (s * 10 ^ nat t) 1 else to_number neg s (10 ^ nat (- t)))"

definition digit_char :: "nat \<Rightarrow> char" where
  "digit_char d = ''0123456789'' ! d"

fun dec :: "nat \<Rightarrow> string" where
  "dec n = (if n < 10 then [digit_char n] else dec (n div 10) @ [digit_char (n mod 10)])"

text \<open>\<open>m * 2^e / 10^t\<close> as the fraction \<open>numer m e t / denom e t\<close>.\<close>

definition numer :: "nat \<Rightarrow> int \<Rightarrow> int \<Rightarrow> nat" where
  "numer m e t = m * (if 0 \<le> e then 2 ^ nat e else 1) * (if t < 0 then 10 ^ nat (- t) else 1)"

definition denom :: "int \<Rightarrow> int \<Rightarrow> nat" where
  "denom e t = (if e < 0 then 2 ^ nat (- e) else 1) * (if 0 \<le> t then 10 ^ nat t else 1)"

text \<open>The decimal magnitude \<open>n\<close> of a positive value: \<open>10^(n-1) \<le> m * 2^e < 10^n\<close>.\<close>

definition magnitude :: "nat \<Rightarrow> int \<Rightarrow> int" where
  "magnitude m e =
     (let n = numer m e 0; d = denom e 0
      in if d \<le> n then int (length (dec (n div d)))
         else let l = length (dec (d div n))
              in if d \<le> n * 10 ^ (l - 1) then 2 - int l else 1 - int l)"

text \<open>
  Number::toString picks the fewest digits \<open>k\<close> for which some \<open>s * 10^(n-k)\<close> with
  \<open>k\<close> digits reads back as the same double, and among those the \<open>s\<close> closest to the value.
  \<open>candidate m e k\<close> tries the two \<open>k\<close>-digit decimals next to \<open>m * 2^e\<close>.
\<close>

definition candidate :: "nat \<Rightarrow> int \<Rightarrow> nat \<Rightarrow> (nat \<times> int) option" where
  "candidate m e k =
     (let t = magnitude m e - int k;
          n = numer m e t; d = denom e t;
          lo = n div d; hi = lo + 1;
          ok_lo = (decimal False lo t = Finite False m e);
          ok_hi = (decimal False hi t = Finite False m e)
      in if ok_lo \<and> (\<not> ok_hi \<or> 2 * (n mod d) \<le> d) then Some (lo, t)
         else if ok_hi then Some (hi, t)
         else None)"

fun shortest :: "nat \<Rightarrow> int \<Rightarrow> nat list \<Rightarrow> nat \<times> int" where
  "shortest m e [] = (let t = magnitude m e - 17 in (round_half_even (numer m e t) (denom e t), t))"
| "shortest m e (k # ks) = (case candidate m e k of Some r \<Rightarrow> r | None \<Rightarrow> shortest m e ks)"

text \<open>The layout of Number::toString: \<open>ds\<close> are the digits, \<open>n\<close> the magnitude.\<close>

definition format_digits :: "string \<Rightarrow> int \<Rightarrow> string" where
  "format_digits ds n =
     (let k = int (length ds)
      in if k \<le> n \<and> n \<le> 21 then ds @ replicate (nat (n - k)) CHR ''0''
         else if 0 < n \<and> n \<le> 21 then take (nat n) ds @ ''.'' @ drop (nat n) ds
         else if - 6 < n \<and> n \<le> 0 then ''0.'' @ replicate (nat (- n)) CHR ''0'' @ ds
         else let ex = (if 0 \<le> n - 1 then ''+'' else ''-'') @ dec (nat \<bar>n - 1\<bar>)
              in if k = 1 then ds @ ''e'' @ ex
                 else take 1 ds @ ''.'' @ drop 1 ds @ ''e'' @ ex)"

definition number_to_string :: "number \<Rightarrow> string" where
  "number_to_string x =
     (case x of
        NaN \<Rightarrow> ''NaN''
      | Infinity neg \<Rightarrow> (if neg then ''-Infinity'' else ''Infinity'')
      | Finite neg m e \<Rightarrow>
          if m = 0 then ''0''
          else
            let (s, t) = shortest m e [1, 2, 3, 4, 5, 6, 7, 8, 9, 10, 11, 12, 13, 14, 15, 16, 17];
                all = dec s;
                ds = rev (dropWhile (\<lambda>c. c = CHR ''0'') (rev all))
            in (if neg then ''-'' else '''') @ format_digits ds (int (length all) + t))"

text \<open>
  \<open>Number.prototype.toFixed(1)\<close>: the integer \<open>n\<close> nearest to ten times the value, the
  larger one of two, printed with its last digit after the point; values from \<open>10^21\<close> on
  and the non-finite ones print as Number::toString prints them.
\<close>

definition toFixed1 :: "number \<Rightarrow> string" where
  "toFixed1 x =
     (case x of
        Finite neg m e \<Rightarrow>
          if 10 ^ 21 * denom e 0 \<le> numer m e 0 then number_to_string x
          else
            let n = (2 * 10 * numer m e 0 + denom e 0) div (2 * denom e 0);
                ds = dec n;
                ds' = (if length ds \<le> 1 then ''0'' @ ds else ds)
            in (if neg \<and> m \<noteq> 0 then ''-'' else '''')
               @ take (length ds' - 1) ds' @ ''.'' @ drop (length ds' - 1) ds'
      | _ \<Rightarrow> number_to_string x)"

section \<open>JavaScript values\<close>

datatype jsval =
    JUndefined
  | JNull
  | JBool bool
  | JNum number
  | JStr string
  | JArr "jsval list"
  | JObj "(string \<times> jsval) list"

datatype exn = TypeError | SyntaxError | QuotaExceededError | Error string

text \<open>
  \<open>get_prop v k\<close> is the property read \<open>v.k\<close>. The program reads \<open>predicted_class\<close>,
  \<open>confidence\<close>, \<open>probabilities\<close>, \<open>Covid\<close>, \<open>Pneumonia\<close>, \<open>Normal\<close> and \<open>model_loaded\<close>
  only; no array, string, number or boolean has one of them, so the read gives \<open>undefined\<close>
  there. Reading a property of \<open>null\<close> or \<open>undefined\<close> throws a TypeError.
\<close>

fun get_prop :: "jsval \<Rightarrow> string \<Rightarrow> exn + jsval" where
  "get_prop JUndefined k = Inl TypeError"
| "get_prop JNull k = Inl TypeError"
| "get_prop (JObj ps) k = Inr (case map_of ps k of None \<Rightarrow> JUndefined | Some v \<Rightarrow> v)"
| "get_prop v k = Inr JUndefined"

definition member :: "exn + jsval \<Rightarrow> string \<Rightarrow> exn + jsval" where
  "member x k = (case x of Inl e \<Rightarrow> Inl e | Inr v \<Rightarrow> get_prop v k)"

text \<open>\<open>x.toFixed(1)\<close>: only a Number has the method.\<close>

definition toFixed :: "exn + jsval \<Rightarrow> exn + string" where
  "toFixed x =
     (case x of
        Inl e \<Rightarrow> Inl e
      | Inr (JNum n) \<Rightarrow> Inr (toFixed1 n)
      | Inr _ \<Rightarrow> Inl TypeError)"

fun truthy :: "jsval \<Rightarrow> bool" where
  "truthy JUndefined = False"
| "truthy JNull = False"
| "truthy (JBool b) = b"
| "truthy (JNum NaN) = False"
| "truthy (JNum (Finite neg m e)) = (m \<noteq> 0)"
| "truthy (JNum (Infinity neg)) = True"
| "truthy (JStr s) = (s \<noteq> [])"
| "truthy (JArr xs) = True"
| "truthy (JObj ps) = True"

text \<open>ToString, as a template literal applies it.\<close>

fun to_string :: "jsval \<Rightarrow> string" and join_elems :: "jsval list \<Rightarrow> string" where
  "to_string JUndefined = ''undefined''"
| "to_string JNull = ''null''"
| "to_string (JBool b) = (if b then ''true'' else ''false'')"
| "to_string (JNum x) = number_to_string x"
| "to_string (JStr s) = s"
| "to_string (JArr xs) = join_elems xs"
| "to_string (JObj ps) = ''[object Object]''"
| "join_elems [] = []"
| "join_elems (x # xs) =
     (if x = JUndefined \<or> x = JNull then [] else to_string x)
     @ (if xs = [] then [] else '','' @ join_elems xs)"

text \<open>The \<open>textContent\<close> setter takes a nullable string: \<open>null\<close> and \<open>undefined\<close> give the empty text.\<close>

definition text_of :: "jsval \<Rightarrow> string" where
  "text_of v = (if v = JUndefined \<or> v = JNull then [] else to_string v)"

subsection \<open>JSON.stringify\<close>

definition hex_char :: "nat \<Rightarrow> char" where
  "hex_char d = ''0123456789abcdef'' ! d"

text \<open>QuoteJSONString, one code unit at a time: \<open>0x5C\<close> is the backslash, \<open>0x22\<close> the double quote.\<close>

definition quote_unit :: "char \<Rightarrow> string" where
  "quote_unit c =
     (if c = CHR 0x08 then [CHR 0x5C, CHR ''b'']
      else if c = CHR 0x09 then [CHR 0x5C, CHR ''t'']
      else if c = CHR 0x0A then [CHR 0x5C, CHR ''n'']
      else if c = CHR 0x0C then [CHR 0x5C, CHR ''f'']
      else if c = CHR 0x0D then [CHR 0x5C, CHR ''r'']
      else if c = CHR 0x22 then [CHR 0x5C, CHR 0x22]
      else if c = CHR 0x5C then [CHR 0x5C, CHR 0x5C]
      else if (of_char c :: nat) < 32
        then [CHR 0x5C, CHR ''u'', CHR ''0'', CHR ''0'', hex_char (of_char c div 16), hex_char (of_char c mod 16)]
      else [c])"

definition quote :: "string \<Rightarrow> string" where
  "quote s = [CHR 0x22] @ concat (map quote_unit s) @ [CHR 0x22]"

fun join_comma :: "string list \<Rightarrow> string" where
  "join_comma [] = []"
| "join_comma [x] = x"
| "join_comma (x # y # ys) = x @ '','' @ join_comma (y # ys)"

text \<open>
  \<open>JSON.stringify\<close> gives \<open>undefined\<close> (\<open>None\<close>) for \<open>undefined\<close>; a property holding
  \<open>undefined\<close> is left out, an array element holding it is written \<open>null\<close>, and so is a
  number that is not finite. The properties of an object are written in the list's order.
\<close>

fun JSON_stringify :: "jsval \<Rightarrow> string option"
  and stringify_elems :: "jsval list \<Rightarrow> string list"
  and stringify_props :: "(string \<times> jsval) list \<Rightarrow> string list" where
  "JSON_stringify JUndefined = None"
| "JSON_stringify JNull = Some ''null''"
| "JSON_stringify (JBool b) = Some (if b then ''true'' else ''false'')"
| "JSON_stringify (JNum x) = Some (case x of Finite neg m e \<Rightarrow> number_to_string x | _ \<Rightarrow> ''null'')"
| "JSON_stringify (JStr s) = Some (quote s)"
| "JSON_stringify (JArr xs) = Some (''['' @ join_comma (stringify_elems xs) @ '']'')"
| "JSON_stringify (JObj ps) = Some (''{'' @ join_comma (stringify_props ps) @ ''}'')"
| "stringify_elems [] = []"
| "stringify_elems (x # xs) =
     (case JSON_stringify x of None \<Rightarrow> ''null'' | Some s \<Rightarrow> s) # stringify_elems xs"
| "stringify_props [] = []"
| "stringify_props (p # ps) =
     (case JSON_stringify (snd p) of
        None \<Rightarrow> stringify_props ps
      | Some s \<Rightarrow> (quote (fst p) @ '':'' @ s) # stringify_props ps)"

text \<open>The own enumerable properties an object spread \<open>{...v}\<close> copies.\<close>

definition own_props :: "jsval \<Rightarrow> (string \<times> jsval) list" where
  "own_props v =
     (case v of
        JObj ps \<Rightarrow> ps
      | JArr xs \<Rightarrow> zip (map dec [0 ..< length xs]) xs
      | JStr s \<Rightarrow> zip (map dec [0 ..< length s]) (map (\<lambda>c. JStr [c]) s)
      | _ \<Rightarrow> [])"

subsection \<open>JSON.parse\<close>

definition is_ws :: "char \<Rightarrow> bool" where
  "is_ws c = (c = CHR '' '' \<or> c = CHR 0x09 \<or> c = CHR 0x0A \<or> c = CHR 0x0D)"

definition skip_ws :: "string \<Rightarrow> string" where
  "skip_ws s = dropWhile is_ws s"

definition is_digit :: "char \<Rightarrow> bool" where
  "is_digit c = (c \<in> set ''0123456789'')"

definition digit_val :: "char \<Rightarrow> nat" where
  "digit_val c = of_char c - 48"

definition nat_of_digits :: "string \<Rightarrow> nat" where
  "nat_of_digits ds = foldl (\<lambda>n c. 10 * n + digit_val c) 0 ds"

definition is_number_char :: "char \<Rightarrow> bool" where
  "is_number_char c = (is_digit c \<or> c \<in> set ''+-.eE'')"

text \<open>
  The JSON number grammar on a whole token: an optional minus, an integer part without a
  leading zero, an optional fraction, an optional exponent. The value is the Number the
  decimal denotes.
\<close>

definition number_of_token :: "string \<Rightarrow> number option" where
  "number_of_token tok =
     (let neg = (tok \<noteq> [] \<and> hd tok = CHR ''-'');
          r0 = (if neg then tl tok else tok);
          ip = takeWhile is_digit r0;
          r1 = dropWhile is_digit r0;
          has_frac = (r1 \<noteq> [] \<and> hd r1 = CHR ''.'');
          fp = (if has_frac then takeWhile is_digit (tl r1) else []);
          r2 = (if has_frac then dropWhile is_digit (tl r1) else r1);
          has_exp = (r2 \<noteq> [] \<and> (hd r2 = CHR ''e'' \<or> hd r2 = CHR ''E''));
          r3 = (if has_exp then tl r2 else r2);
          exp_neg = (has_exp \<and> r3 \<noteq> [] \<and> hd r3 = CHR ''-'');
          r4 = (if has_exp \<and> r3 \<noteq> [] \<and> (hd r3 = CHR ''-'' \<or> hd r3 = CHR ''+'') then tl r3 else r3);
          ep = (if has_exp then takeWhile is_digit r4 else []);
          r5 = (if has_exp then dropWhile is_digit r4 else r4)
      in if ip = [] \<or> (1 < length ip \<and> hd ip = CHR ''0'') \<or> (has_frac \<and> fp = [])
            \<or> (has_exp \<and> ep = []) \<or> r5 \<noteq> []
         then None
         else Some (decimal neg (nat_of_digits (ip @ fp))
                      ((if exp_neg then - int (nat_of_digits ep) else int (nat_of_digits ep))
                       - int (length fp))))"

definition parse_number :: "string \<Rightarrow> (number \<times> string) option" where
  "parse_number s =
     (case number_of_token (takeWhile is_number_char s) of
        None \<Rightarrow> None
      | Some x \<Rightarrow> Some (x, dropWhile is_number_char s))"

definition hex_val :: "char \<Rightarrow> nat option" where
  "hex_val c =
     (if is_digit c then Some (of_char c - 48)
      else if c \<in> set ''abcdef'' then Some (of_char c - 87)
      else if c \<in> set ''ABCDEF'' then Some (of_char c - 55)
      else None)"

text \<open>
  The characters of a string after its opening quote, up to the closing one. Strings of the
  model hold code units below 256; an escape \<open>\uXXXX\<close> of a larger one has no counterpart
  and is refused.
\<close>

fun parse_string :: "string \<Rightarrow> (string \<times> string) option" where
  "parse_string [] = None"
| "parse_string (c # r) =
     (if c = CHR 0x22 then Some ([], r)
      else if c = CHR 0x5C then
        (case r of
           [] \<Rightarrow> None
         | e # r' \<Rightarrow>
             if e = CHR ''u'' then
               (case r' of
                  a # b # c' # d # r'' \<Rightarrow>
                    (case (hex_val a, hex_val b, hex_val c', hex_val d) of
                       (Some h3, Some h2, Some h1, Some h0) \<Rightarrow>
                         if h3 = 0 \<and> h2 = 0 then
                           map_option (\<lambda>(s, t). (char_of (16 * h1 + h0) # s, t)) (parse_string r'')
                         else None
                     | _ \<Rightarrow> None)
                | _ \<Rightarrow> None)
             else
               (case (if e = CHR 0x22 then Some (CHR 0x22)
                      else if e = CHR 0x5C then Some (CHR 0x5C)
                      else if e = CHR ''/'' then Some (CHR ''/'')
                      else if e = CHR ''b'' then Some (CHR 0x08)
                      else if e = CHR ''f'' then Some (CHR 0x0C)
                      else if e = CHR ''n'' then Some (CHR 0x0A)
                      else if e = CHR ''r'' then Some (CHR 0x0D)
                      else if e = CHR ''t'' then Some (CHR 0x09)
                      else None) of
                  None \<Rightarrow> None
                | Some x \<Rightarrow> map_option (\<lambda>(s, t). (x # s, t)) (parse_string r')))
      else if (of_char c :: nat) < 32 then None
      else map_option (\<lambda>(s, t). (c # s, t)) (parse_string r))"

definition literal :: "string \<Rightarrow> jsval \<Rightarrow> string \<Rightarrow> (jsval \<times> string) option" where
  "literal word v s =
     (if take (length word) s = word then Some (v, drop (length word) s) else None)"

text \<open>
  The recursive descent of \<open>JSON.parse\<close>; the first argument bounds the number of steps,
  and \<open>JSON_parse\<close> gives it one more than the length of the text (\<open>roundtrip_value\<close>
  shows that this is enough for every text \<open>JSON.stringify\<close> writes).
  A property that occurs twice keeps its first place and its last value. Properties stay
  in the order of the text; an engine lists array-index names first, which nothing here
  observes.
\<close>

fun parse_value :: "nat \<Rightarrow> string \<Rightarrow> (jsval \<times> string) option"
  and parse_elems :: "nat \<Rightarrow> string \<Rightarrow> jsval list \<Rightarrow> (jsval \<times> string) option"
  and parse_members :: "nat \<Rightarrow> string \<Rightarrow> (string \<times> jsval) list \<Rightarrow> (jsval \<times> string) option" where
  "parse_value 0 s = None"
| "parse_value (Suc n) s =
     (case skip_ws s of
        [] \<Rightarrow> None
      | c # r \<Rightarrow>
          if c = CHR ''{'' then
            (case skip_ws r of
               [] \<Rightarrow> None
             | d # r' \<Rightarrow> if d = CHR ''}'' then Some (JObj [], r') else parse_members n r [])
          else if c = CHR ''['' then
            (case skip_ws r of
               [] \<Rightarrow> None
             | d # r' \<Rightarrow> if d = CHR '']'' then Some (JArr [], r') else parse_elems n r [])
          else if c = CHR 0x22 then map_option (\<lambda>(str, t). (JStr str, t)) (parse_string r)
          else if c = CHR ''t'' then literal ''true'' (JBool True) (c # r)
          else if c = CHR ''f'' then literal ''false'' (JBool False) (c # r)
          else if c = CHR ''n'' then literal ''null'' JNull (c # r)
          else map_option (\<lambda>(x, t). (JNum x, t)) (parse_number (c # r)))"
| "parse_elems 0 s acc = None"
| "parse_elems (Suc n) s acc =
     (case parse_value n s of
        None \<Rightarrow> None
      | Some (v, r) \<Rightarrow>
          (case skip_ws r of
             [] \<Rightarrow> None
           | c # r' \<Rightarrow>
               if c = CHR '','' then parse_elems n r' (acc @ [v])
               else if c = CHR '']'' then Some (JArr (acc @ [v]), r')
               else None))"
| "parse_members 0 s acc = None"
| "parse_members (Suc n) s acc =
     (case skip_ws s of
        [] \<Rightarrow> None
      | q # r \<Rightarrow>
          if q \<noteq> CHR 0x22 then None
          else
            (case parse_string r of
               None \<Rightarrow> None
             | Some (k, r1) \<Rightarrow>
                 (case skip_ws r1 of
                    [] \<Rightarrow> None
                  | c # r2 \<Rightarrow>
                      if c \<noteq> CHR '':'' then None
                      else
                        (case parse_value n r2 of
                           None \<Rightarrow> None
                         | Some (v, r3) \<Rightarrow>
                             (case skip_ws r3 of
                                [] \<Rightarrow> None
                              | d # r4 \<Rightarrow>
                                  if d = CHR '','' then parse_members n r4 (AList.update k v acc)
                                  else if d = CHR ''}'' then Some (JObj (AList.update k v acc), r4)
                                  else None)))))"

definition JSON_parse :: "string \<Rightarrow> jsval option" where
  "JSON_parse s =
     (case parse_value (length s + 1) s of
        None \<Rightarrow> None
      | Some (v, r) \<Rightarrow> if skip_ws r = [] then Some v else None)"



section \<open>The page\<close>

text \<open>
  The script keeps its elements in module constants, read once with
  \<open>document.getElementById\<close>; each is an element of the page or \<open>null\<close>. A handle names
  the constant, \<open>badge\<close> the element \<open>server-status-badge\<close> that \<open>checkServerStatus\<close> looks
  up; \<open>errorText\<close> is the first paragraph inside the error message, or \<open>null\<close>. The
  elements behind different handles are different nodes, and none lies inside a node whose
  text the script replaces. Which elements exist is decided by the markup of the page; the
  model takes it as a parameter.
\<close>

datatype handle =
    dropZone | fileInput | imagePreview | previewImg | resultsSection | loading | resultCard
  | predictionText | confidenceText | covidProb | pneumoniaProb | normalProb
  | covidBar | pneumoniaBar | normalBar | errorMessage | errorText | badge

text \<open>
  Of an element the model keeps the class list, the text, the \<open>src\<close> attribute and
  \<open>style.width\<close>, each as the script last set it.
\<close>

record element =
  classList :: "string list"
  textContent :: string
  src :: string
  width :: string

record upload =
  ftype :: string
  fsize :: nat

datatype request = Request string string "upload option"

datatype log = LogError string exn | LogValue string jsval

text \<open>A callback handed to \<open>setTimeout\<close>: the closure of \<open>animateProgressBar\<close>.\<close>

datatype callback = SetWidth handle jsval

record page =
  elements :: "handle \<Rightarrow> element option"
  requests :: "request list"
  localStorage :: "(string \<times> string) list"
  quota :: nat
  console :: "log list"
  timers :: "(callback \<times> nat) list"
  reading :: "upload list"

text \<open>
  A statement runs on the page and either completes (\<open>None\<close>) or throws; what it changed
  before it threw stays changed.
\<close>

type_synonym stmt = "page \<Rightarrow> exn option \<times> page"

fun block :: "stmt list \<Rightarrow> stmt" where
  "block [] st = (None, st)"
| "block (s # ss) st = (case s st of (None, st') \<Rightarrow> block ss st' | (Some e, st') \<Rightarrow> (Some e, st'))"

definition throw :: "exn \<Rightarrow> stmt" where
  "throw e st = (Some e, st)"

definition try_catch :: "stmt \<Rightarrow> (exn \<Rightarrow> stmt) \<Rightarrow> stmt" where
  "try_catch body handler st =
     (case body st of (None, st') \<Rightarrow> (None, st') | (Some e, st') \<Rightarrow> handler e st')"

definition try_finally :: "stmt \<Rightarrow> stmt \<Rightarrow> stmt" where
  "try_finally body cleanup st =
     (case body st of
        (r, st') \<Rightarrow> (case cleanup st' of (None, st'') \<Rightarrow> (r, st'') | (Some e, st'') \<Rightarrow> (Some e, st'')))"

text \<open>Evaluate an expression that may throw, then go on with its value.\<close>

definition eval :: "exn + 'a \<Rightarrow> ('a \<Rightarrow> stmt) \<Rightarrow> stmt" where
  "eval x k st = (case x of Inl e \<Rightarrow> (Some e, st) | Inr v \<Rightarrow> k v st)"

text \<open>A member of \<open>null\<close> cannot be read or written: TypeError.\<close>

definition update_element :: "handle \<Rightarrow> (element \<Rightarrow> element) \<Rightarrow> stmt" where
  "update_element h f st =
     (case elements st h of
        None \<Rightarrow> (Some TypeError, st)
      | Some el \<Rightarrow> (None, st\<lparr>elements := (elements st)(h \<mapsto> f el)\<rparr>))"

text \<open>A class list is an ordered set of tokens.\<close>

definition add_token :: "string \<Rightarrow> string list \<Rightarrow> string list" where
  "add_token c cs = (if c \<in> set cs then cs else cs @ [c])"

definition remove_token :: "string \<Rightarrow> string list \<Rightarrow> string list" where
  "remove_token c cs = filter (\<lambda>x. x \<noteq> c) cs"

definition classList_add :: "handle \<Rightarrow> string \<Rightarrow> stmt" where
  "classList_add h c = update_element h (\<lambda>el. el\<lparr>classList := add_token c (classList el)\<rparr>)"

definition classList_remove :: "handle \<Rightarrow> string \<Rightarrow> stmt" where
  "classList_remove h c = update_element h (\<lambda>el. el\<lparr>classList := remove_token c (classList el)\<rparr>)"

definition set_textContent :: "handle \<Rightarrow> string \<Rightarrow> stmt" where
  "set_textContent h s = update_element h (\<lambda>el. el\<lparr>textContent := s\<rparr>)"

definition set_src :: "handle \<Rightarrow> string \<Rightarrow> stmt" where
  "set_src h s = update_element h (\<lambda>el. el\<lparr>src := s\<rparr>)"

definition set_width :: "handle \<Rightarrow> string \<Rightarrow> stmt" where
  "set_width h s = update_element h (\<lambda>el. el\<lparr>width := s\<rparr>)"

definition console_error :: "string \<Rightarrow> exn \<Rightarrow> stmt" where
  "console_error msg e st = (None, st\<lparr>console := console st @ [LogError msg e]\<rparr>)"

definition console_log :: "string \<Rightarrow> jsval \<Rightarrow> stmt" where
  "console_log msg v st = (None, st\<lparr>console := console st @ [LogValue msg v]\<rparr>)"

definition setTimeout :: "callback \<Rightarrow> nat \<Rightarrow> stmt" where
  "setTimeout cb ms st = (None, st\<lparr>timers := timers st @ [(cb, ms)]\<rparr>)"

text \<open>\<open>fetch\<close> sends the request and returns a promise; the call itself does not throw.\<close>

definition fetch :: "request \<Rightarrow> stmt" where
  "fetch r st = (None, st\<lparr>requests := requests st @ [r]\<rparr>)"

text \<open>
  What the two awaits of a request give back: the fetch promise rejects (a TypeError), or
  it gives a response with a status, whose \<open>json()\<close> promise rejects or gives a value.
\<close>

datatype body = BodyRejected exn | BodyJson jsval

datatype fetch_outcome = FetchRejected | Response nat body

definition response_ok :: "nat \<Rightarrow> bool" where
  "response_ok status = (200 \<le> status \<and> status \<le> 299)"

subsection \<open>Local storage\<close>

definition storage_size :: "(string \<times> string) list \<Rightarrow> nat" where
  "storage_size items = sum_list (map (\<lambda>(k, v). length k + length v) items)"

text \<open>\<open>setItem\<close> throws a QuotaExceededError, and stores nothing, when the store would outgrow its quota.\<close>

definition setItem :: "string \<Rightarrow> string \<Rightarrow> stmt" where
  "setItem k v st =
     (let items = AList.update k v (localStorage st)
      in if quota st < storage_size items then (Some QuotaExceededError, st)
         else (None, st\<lparr>localStorage := items\<rparr>))"


section \<open>The program\<close>

definition API_BASE_URL :: string where
  "API_BASE_URL = ''http://localhost:8000''"

definition showError :: "string \<Rightarrow> stmt" where
  "showError message =
     block [set_textContent errorText message,
            classList_remove errorMessage ''hidden'',
            classList_add resultsSection ''hidden'']"

definition allowedTypes :: "string list" where
  "allowedTypes = [''image/png'', ''image/jpeg'', ''image/jpg'']"

definition maxSize :: nat where
  "maxSize = 10 * 1024 * 1024"

definition validateFile :: "upload \<Rightarrow> page \<Rightarrow> (exn + bool) \<times> page" where
  "validateFile file st =
     (if ftype file \<notin> set allowedTypes then
        (case showError ''Please select a valid image file (PNG, JPG, or JPEG).'' st of
           (Some e, st') \<Rightarrow> (Inl e, st')
         | (None, st') \<Rightarrow> (Inr False, st'))
      else if maxSize < fsize file then
        (case showError ''File size must be less than 10MB.'' st of
           (Some e, st') \<Rightarrow> (Inl e, st')
         | (None, st') \<Rightarrow> (Inr False, st'))
      else (Inr True, st))"

text \<open>
  \<open>showImagePreview\<close> starts a FileReader on the file; \<open>reader_onload\<close> is its \<open>onload\<close>
  handler, run later with the data URL the reader produced.
\<close>

definition showImagePreview :: "upload \<Rightarrow> stmt" where
  "showImagePreview file st = (None, st\<lparr>reading := reading st @ [file]\<rparr>)"

definition reader_onload :: "string \<Rightarrow> stmt" where
  "reader_onload result = block [set_src previewImg result, classList_remove imagePreview ''hidden'']"

definition showLoading :: stmt where
  "showLoading =
     block [classList_remove loading ''hidden'',
            classList_remove resultsSection ''hidden'',
            classList_add resultCard ''hidden'',
            classList_add errorMessage ''hidden'']"

definition hideLoading :: stmt where
  "hideLoading = classList_add loading ''hidden''"

definition animateProgressBar :: "handle \<Rightarrow> jsval \<Rightarrow> stmt" where
  "animateProgressBar bar percentage =
     block [set_width bar ''0%'', setTimeout (SetWidth bar percentage) 100]"



definition displayResults :: "jsval \<Rightarrow> stmt" where
  "displayResults result =
     block
      [eval (member (Inr result) ''predicted_class'') (\<lambda>v. set_textContent predictionText (text_of v)),
       eval (toFixed (member (Inr result) ''confidence''))
         (\<lambda>s. set_textContent confidenceText (''Confidence: '' @ s @ ''%'')),
       eval (toFixed (member (member (Inr result) ''probabilities'') ''Covid''))
         (\<lambda>s. set_textContent covidProb (s @ ''%'')),
       eval (toFixed (member (member (Inr result) ''probabilities'') ''Pneumonia''))
         (\<lambda>s. set_textContent pneumoniaProb (s @ ''%'')),
       eval (toFixed (member (member (Inr result) ''probabilities'') ''Normal''))
         (\<lambda>s. set_textContent normalProb (s @ ''%'')),
       eval (member (member (Inr result) ''probabilities'') ''Covid'') (animateProgressBar covidBar),
       eval (member (member (Inr result) ''probabilities'') ''Pneumonia'') (animateProgressBar pneumoniaBar),
       eval (member (member (Inr result) ''probabilities'') ''Normal'') (animateProgressBar normalBar),
       classList_remove resultCard ''hidden'',
       classList_remove resultsSection ''hidden'']"

text \<open>\<open>now\<close> is what \<open>new Date().toISOString()\<close> gives when the result is saved.\<close>

text \<open>\<open>saved_text now result\<close> is \<open>JSON.stringify({...result, timestamp: now})\<close>, as \<open>setItem\<close> receives it.\<close>

definition saved_text :: "string \<Rightarrow> jsval \<Rightarrow> string" where
  "saved_text now result =
     (case JSON_stringify (JObj (AList.update ''timestamp'' (JStr now) (own_props result))) of
        None \<Rightarrow> ''undefined'' | Some s \<Rightarrow> s)"

definition saveLastDiagnosis :: "string \<Rightarrow> jsval \<Rightarrow> stmt" where
  "saveLastDiagnosis now result =
     try_catch
       (setItem ''lastDiagnosis'' (saved_text now result))
       (\<lambda>error. console_error ''Failed to save diagnosis:'' error)"


text \<open>
  \<open>predictXray\<close> is an async function. \<open>predictXray_begin\<close> is what its call runs at once, up
  to the first await; \<open>predictXray_resume\<close> is the rest, run when the request has settled with
  \<open>outcome\<close>. A result of \<open>Some e\<close> is the promise rejected with \<open>e\<close>.
\<close>

definition predictXray_begin :: "upload \<Rightarrow> stmt" where
  "predictXray_begin file =
     block [showLoading, fetch (Request ''POST'' (API_BASE_URL @ ''/predict'') (Some file))]"

definition predictXray_resume :: "string \<Rightarrow> fetch_outcome \<Rightarrow> stmt" where
  "predictXray_resume now outcome =
     try_finally
       (try_catch
          (case outcome of
             FetchRejected \<Rightarrow> throw TypeError
           | Response status body \<Rightarrow>
               if \<not> response_ok status then throw (Error (''HTTP error! status: '' @ dec status))
               else (case body of
                       BodyRejected e \<Rightarrow> throw e
                     | BodyJson result \<Rightarrow> block [displayResults result, saveLastDiagnosis now result]))
          (\<lambda>error. block [console_error ''Prediction error:'' error,
                          showError ''Failed to analyze the image. Please try again.'']))
       hideLoading"

definition predictXray :: "string \<Rightarrow> fetch_outcome \<Rightarrow> upload \<Rightarrow> stmt" where
  "predictXray now outcome file st =
     (case predictXray_begin file st of
        (Some e, st') \<Rightarrow> (Some e, st')
      | (None, st') \<Rightarrow> predictXray_resume now outcome st')"

text \<open>
  \<open>handleFiles\<close> calls \<open>predictXray\<close> without awaiting it: the call runs to the first await
  and a rejection of its promise is not thrown to \<open>handleFiles\<close>.
\<close>

definition handleFiles :: "upload list \<Rightarrow> stmt" where
  "handleFiles files st =
     (case files of
        [] \<Rightarrow> (None, st)
      | file # rest \<Rightarrow>
          (case validateFile file st of
             (Inl e, st') \<Rightarrow> (Some e, st')
           | (Inr ok, st') \<Rightarrow>
               if ok then
                 (case showImagePreview file st' of
                    (Some e, st'') \<Rightarrow> (Some e, st'')
                  | (None, st'') \<Rightarrow> (None, snd (predictXray_begin file st'')))
               else (None, st')))"

definition checkServerStatus :: "fetch_outcome \<Rightarrow> stmt" where
  "checkServerStatus outcome =
     try_catch
       (block
         [fetch (Request ''GET'' (API_BASE_URL @ ''/'') None),
          (case outcome of
             FetchRejected \<Rightarrow> throw TypeError
           | Response status body \<Rightarrow>
               if \<not> response_ok status then throw (Error ''Server unreachable'')
               else (case body of
                       BodyRejected e \<Rightarrow> throw e
                     | BodyJson json \<Rightarrow>
                         eval (get_prop json ''model_loaded'')
                           (\<lambda>v. if truthy v
                                then block [set_textContent badge ''Ready (model loaded)'',
                                            classList_add badge ''text-green-600'']
                                else block [set_textContent badge ''Ready (no model)'',
                                            classList_add badge ''text-yellow-600''])))])
       (\<lambda>err. block [set_textContent badge ''Offline'', classList_add badge ''text-red-600''])"

section \<open>Observations of the page\<close>

text \<open>
  What a user sees of an element: the classes it carries (\<open>hidden\<close> takes it off the
  screen), its text and, for a bar, its width.
\<close>

definition has_class :: "page \<Rightarrow> handle \<Rightarrow> string \<Rightarrow> bool" where
  "has_class st h c = (case elements st h of None \<Rightarrow> False | Some el \<Rightarrow> c \<in> set (classList el))"

definition shown :: "page \<Rightarrow> handle \<Rightarrow> bool" where
  "shown st h = (case elements st h of None \<Rightarrow> False | Some el \<Rightarrow> ''hidden'' \<notin> set (classList el))"

definition text_at :: "page \<Rightarrow> handle \<Rightarrow> string option" where
  "text_at st h = map_option textContent (elements st h)"


text \<open>A complete page has every element the script looks up.\<close>

definition complete :: "page \<Rightarrow> bool" where
  "complete st = (\<forall>h. elements st h \<noteq> None)"

subsection \<open>Outcomes of a request\<close>

text \<open>A request has failed when the fetch promise rejects or the status is not 2xx.\<close>

definition request_failed :: "fetch_outcome \<Rightarrow> bool" where
  "request_failed outcome =
     (case outcome of FetchRejected \<Rightarrow> True | Response status body \<Rightarrow> \<not> response_ok status)"

definition generic_failure :: string where
  "generic_failure = ''Failed to analyze the image. Please try again.''"

text \<open>
  The status probe has failed when the fetch promise rejects, the status is not 2xx or the
  body does not parse. \<open>model_loaded\<close> says that the probe got a body whose \<open>model_loaded\<close>
  property is truthy.
\<close>

definition probe_failed :: "fetch_outcome \<Rightarrow> bool" where
  "probe_failed outcome =
     (case outcome of
        FetchRejected \<Rightarrow> True
      | Response status body \<Rightarrow>
          \<not> response_ok status \<or> (case body of BodyRejected e \<Rightarrow> True | BodyJson json \<Rightarrow> False))"

definition model_loaded :: "fetch_outcome \<Rightarrow> bool" where
  "model_loaded outcome =
     (case outcome of
        FetchRejected \<Rightarrow> False
      | Response status body \<Rightarrow>
          response_ok status \<and>
          (case body of
             BodyRejected e \<Rightarrow> False
           | BodyJson json \<Rightarrow> (case get_prop json ''model_loaded'' of Inl e \<Rightarrow> False | Inr v \<Rightarrow> truthy v)))"

text \<open>
  \<open>displayResults\<close> calls \<open>toFixed\<close> on the confidence and on the three probabilities; a
  result renders when the four are Numbers.
\<close>

definition is_num :: "exn + jsval \<Rightarrow> bool" where
  "is_num x = (case x of Inl e \<Rightarrow> False | Inr v \<Rightarrow> (case v of JNum n \<Rightarrow> True | _ \<Rightarrow> False))"

definition renders :: "jsval \<Rightarrow> bool" where
  "renders result =
     (is_num (member (Inr result) ''confidence'') \<and>
      is_num (member (member (Inr result) ''probabilities'') ''Covid'') \<and>
      is_num (member (member (Inr result) ''probabilities'') ''Pneumonia'') \<and>
      is_num (member (member (Inr result) ''probabilities'') ''Normal''))"

text \<open>A prediction has succeeded when the status is 2xx and the body parses to a result that renders.\<close>

definition prediction_succeeded :: "fetch_outcome \<Rightarrow> bool" where
  "prediction_succeeded outcome =
     (case outcome of
        FetchRejected \<Rightarrow> False
      | Response status body \<Rightarrow>
          response_ok status \<and> (case body of BodyRejected e \<Rightarrow> False | BodyJson result \<Rightarrow> renders result))"

subsection \<open>Invariants of the statements\<close>

text \<open>No statement of the program removes an element from the page.\<close>

definition keeps :: "stmt \<Rightarrow> bool" where
  "keeps s = (\<forall>st h. elements st h \<noteq> None \<longrightarrow> elements (snd (s st)) h \<noteq> None)"

text \<open>No statement of the program but \<open>setItem\<close> changes the local storage.\<close>

definition stores :: "stmt \<Rightarrow> bool" where
  "stores s = (\<forall>st. localStorage (snd (s st)) = localStorage st)"

text \<open>The exceptions a statement of \<open>displayResults\<close> can throw, and a property read or \<open>toFixed\<close> call can give, are TypeErrors.\<close>

definition only_TypeError :: "stmt \<Rightarrow> bool" where
  "only_TypeError s = (\<forall>st. fst (s st) = None \<or> fst (s st) = Some TypeError)"

definition te :: "exn + 'a \<Rightarrow> bool" where
  "te x = (\<forall>e. x = Inl e \<longrightarrow> e = TypeError)"

subsection \<open>Texts that parse\<close>

text \<open>
  \<open>parses v t\<close>: the text \<open>t\<close> starts a value and, followed by anything a number cannot
  run into, is read as \<open>v\<close> by every run of \<open>parse_value\<close> that has more steps than \<open>t\<close>
  has characters.
\<close>

definition after_ok :: "string \<Rightarrow> bool" where
  "after_ok rest = (case rest of [] \<Rightarrow> True | c # r \<Rightarrow> \<not> is_number_char c)"



subsection \<open>Sample values\<close>

text \<open>
  A page with every element the script looks up, before any upload: the preview, the
  results section, the loading indicator, the result card and the error message are hidden.
\<close>

definition blank :: element where
  "blank = \<lparr>classList = [], textContent = [], src = [], width = []\<rparr>"

definition sample_page :: page where
  "sample_page =
     \<lparr>elements = (\<lambda>h. Some (if h \<in> {imagePreview, resultsSection, loading, resultCard, errorMessage}
                                then blank\<lparr>classList := [''hidden'']\<rparr> else blank)),
      requests = [],
      localStorage = [],
      quota = 5242880,
      console = [],
      timers = [],
      reading = []\<rparr>"

definition sample_png :: upload where
  "sample_png = \<lparr>ftype = ''image/png'', fsize = 2048\<rparr>"

text \<open>The mock response of the specification's scenario; the numbers are what its JSON text denotes.\<close>

definition mock_result :: jsval where
  "mock_result =
     JObj [(''predicted_class'', JStr ''Normal''),
           (''confidence'', JNum (decimal False 873 (- 1))),
           (''probabilities'',
              JObj [(''Covid'', JNum (decimal False 42 (- 1))),
                    (''Pneumonia'', JNum (decimal False 85 (- 1))),
                    (''Normal'', JNum (decimal False 873 (- 1)))])]"

text \<open>A body without \<open>predicted_class\<close>, and the time and the saved text of the sample run.\<close>

definition classless_result :: jsval where
  "classless_result =
     JObj [(''confidence'', JNum (decimal False 873 (- 1))),
           (''probabilities'',
              JObj [(''Covid'', JNum (decimal False 42 (- 1))),
                    (''Pneumonia'', JNum (decimal False 85 (- 1))),
                    (''Normal'', JNum (decimal False 873 (- 1)))])]"

definition mock_now :: string where
  "mock_now = ''2026-01-01T00:00:00.000Z''"

definition mock_text :: string where
  \<open>mock_text = ''{"predicted_class":"Normal","confidence":87.3,"probabilities":{"Covid":4.2,"Pneumonia":8.5,"Normal":87.3},"timestamp":"2026-01-01T00:00:00.000Z"}''\<close>

section \<open>Properties\<close>

subsection \<open>Effects of the statements\<close>

lemma set_add_token [simp]: "set (add_token c cs) = insert c (set cs)"
  by (auto simp add: add_token_def)

lemma set_remove_token [simp]: "set (remove_token c cs) = set cs - {c}"
  by (auto simp add: remove_token_def)

lemmas dom_ops = set_textContent_def set_width_def set_src_def classList_remove_def
  classList_add_def update_element_def

lemma showError_effect:
  assumes "elements st errorText = Some t" "elements st errorMessage = Some m"
    "elements st resultsSection = Some r"
  shows "showError message st =
    (None, st\<lparr>elements := (elements st)
       (errorText \<mapsto> t\<lparr>textContent := message\<rparr>,
        errorMessage \<mapsto> m\<lparr>classList := remove_token ''hidden'' (classList m)\<rparr>,
        resultsSection \<mapsto> r\<lparr>classList := add_token ''hidden'' (classList r)\<rparr>)\<rparr>)"
  using assms by (simp add: showError_def dom_ops)

lemma showError_requests: "requests (snd (showError message st)) = requests st"
  by (simp add: showError_def dom_ops split: option.split)

lemma validateFile_bad_type:
  "ftype f \<notin> set allowedTypes \<Longrightarrow>
   validateFile f st =
     (case showError ''Please select a valid image file (PNG, JPG, or JPEG).'' st of
        (Some e, st') \<Rightarrow> (Inl e, st') | (None, st') \<Rightarrow> (Inr False, st'))"
  by (simp add: validateFile_def)

lemma validateFile_too_big:
  "ftype f \<in> set allowedTypes \<Longrightarrow> maxSize < fsize f \<Longrightarrow>
   validateFile f st =
     (case showError ''File size must be less than 10MB.'' st of
        (Some e, st') \<Rightarrow> (Inl e, st') | (None, st') \<Rightarrow> (Inr False, st'))"
  by (simp add: validateFile_def)

lemma validateFile_accepted:
  "ftype f \<in> set allowedTypes \<Longrightarrow> fsize f \<le> maxSize \<Longrightarrow> validateFile f st = (Inr True, st)"
  by (simp add: validateFile_def)

lemma handleFiles_rejected:
  assumes "validateFile f st =
     (case showError msg st of (Some e, st') \<Rightarrow> (Inl e, st') | (None, st') \<Rightarrow> (Inr False, st'))"
  shows "handleFiles (f # rest) st = showError msg st"
proof (cases "showError msg st")
  case (Pair r st')
  then show ?thesis
    by (cases r) (simp_all add: handleFiles_def assms)
qed

lemma showLoading_effect:
  assumes "elements st loading = Some l" "elements st resultsSection = Some r"
    "elements st resultCard = Some c" "elements st errorMessage = Some m"
  shows "showLoading st =
    (None, st\<lparr>elements := (elements st)
       (loading \<mapsto> l\<lparr>classList := remove_token ''hidden'' (classList l)\<rparr>,
        resultsSection \<mapsto> r\<lparr>classList := remove_token ''hidden'' (classList r)\<rparr>,
        resultCard \<mapsto> c\<lparr>classList := add_token ''hidden'' (classList c)\<rparr>,
        errorMessage \<mapsto> m\<lparr>classList := add_token ''hidden'' (classList m)\<rparr>)\<rparr>)"
  using assms by (simp add: showLoading_def dom_ops)

lemma hideLoading_effect:
  assumes "elements st loading = Some l"
  shows "hideLoading st =
    (None, st\<lparr>elements := (elements st)(loading \<mapsto> l\<lparr>classList := add_token ''hidden'' (classList l)\<rparr>)\<rparr>)"
  using assms by (simp add: hideLoading_def dom_ops)

lemma keepsD: "keeps s \<Longrightarrow> elements st h \<noteq> None \<Longrightarrow> elements (snd (s st)) h \<noteq> None"
  by (simp add: keeps_def)

lemma keeps_update_element [simp]: "keeps (update_element h f)"
  by (simp add: keeps_def update_element_def split: option.split)

lemma keeps_dom_ops [simp]:
  "keeps (set_textContent h s)" "keeps (set_width h s)" "keeps (set_src h s)"
  "keeps (classList_add h c)" "keeps (classList_remove h c)"
  by (simp_all add: set_textContent_def set_width_def set_src_def classList_add_def
      classList_remove_def)

lemma keeps_misc [simp]:
  "keeps (throw e)" "keeps (console_error msg e)" "keeps (console_log msg v)"
  "keeps (setTimeout cb ms)" "keeps (fetch r)" "keeps (setItem k x)"
  by (simp_all add: keeps_def throw_def console_error_def console_log_def setTimeout_def
      fetch_def setItem_def Let_def)

lemma keeps_block [simp]: "list_all keeps ss \<Longrightarrow> keeps (block ss)"
proof (induction ss)
  case Nil
  show ?case by (simp add: keeps_def)
next
  case (Cons s ss)
  then have s: "keeps s" and ss: "keeps (block ss)" by simp_all
  show ?case
    unfolding keeps_def
  proof (intro allI impI)
    fix st :: page and h
    assume h: "elements st h \<noteq> None"
    obtain r st' where r: "s st = (r, st')" by (cases "s st")
    with keepsD[OF s h] have h': "elements st' h \<noteq> None" by simp
    show "elements (snd (block (s # ss) st)) h \<noteq> None"
      using r h' keepsD[OF ss h'] by (cases r) simp_all
  qed
qed

lemma keeps_try_catch [simp]:
  assumes "keeps body" "\<And>e. keeps (handler e)"
  shows "keeps (try_catch body handler)"
  unfolding keeps_def
proof (intro allI impI)
  fix st :: page and h
  assume h: "elements st h \<noteq> None"
  obtain r st' where r: "body st = (r, st')" by (cases "body st")
  with keepsD[OF assms(1) h] have h': "elements st' h \<noteq> None" by simp
  show "elements (snd (try_catch body handler st)) h \<noteq> None"
    using r h' keepsD[OF assms(2) h'] by (cases r) (simp_all add: try_catch_def)
qed

lemma keeps_try_finally [simp]:
  assumes "keeps body" "keeps cleanup"
  shows "keeps (try_finally body cleanup)"
  unfolding keeps_def
proof (intro allI impI)
  fix st :: page and h
  assume h: "elements st h \<noteq> None"
  obtain r st' where r: "body st = (r, st')" by (cases "body st")
  with keepsD[OF assms(1) h] have h': "elements st' h \<noteq> None" by simp
  obtain r' st'' where r': "cleanup st' = (r', st'')" by (cases "cleanup st'")
  with keepsD[OF assms(2) h'] have "elements st'' h \<noteq> None" by simp
  then show "elements (snd (try_finally body cleanup st)) h \<noteq> None"
    using r r' by (cases r') (simp_all add: try_finally_def)
qed

lemma keeps_eval [simp]: "(\<And>v. keeps (k v)) \<Longrightarrow> keeps (eval x k)"
  by (cases x) (simp_all add: keeps_def eval_def)

lemma keeps_showError [simp]: "keeps (showError message)"
  by (simp add: showError_def)

lemma keeps_hideLoading [simp]: "keeps hideLoading"
  by (simp add: hideLoading_def)

lemma keeps_animateProgressBar [simp]: "keeps (animateProgressBar bar percentage)"
  by (simp add: animateProgressBar_def)

lemma keeps_displayResults [simp]: "keeps (displayResults result)"
  by (simp add: displayResults_def)

lemma keeps_saveLastDiagnosis [simp]: "keeps (saveLastDiagnosis now result)"
  by (simp add: saveLastDiagnosis_def)

lemma keeps_predictXray_resume [simp]: "keeps (predictXray_resume now outcome)"
  by (simp add: predictXray_resume_def split: fetch_outcome.split body.split)

lemma resume_hides_loading:
  assumes "elements st loading \<noteq> None"
  shows "has_class (snd (predictXray_resume now outcome st)) loading ''hidden''"
proof -
  define body where "body = try_catch
          (case outcome of
             FetchRejected \<Rightarrow> throw TypeError
           | Response status body \<Rightarrow>
               if \<not> response_ok status then throw (Error (''HTTP error! status: '' @ dec status))
               else (case body of
                       BodyRejected e \<Rightarrow> throw e
                     | BodyJson result \<Rightarrow> block [displayResults result, saveLastDiagnosis now result]))
          (\<lambda>error. block [console_error ''Prediction error:'' error,
                          showError ''Failed to analyze the image. Please try again.''])"
  have k: "keeps body"
    unfolding body_def by (simp split: fetch_outcome.split body.split)
  have r: "predictXray_resume now outcome = try_finally body hideLoading"
    by (simp add: predictXray_resume_def body_def)
  obtain e st' where b: "body st = (e, st')" by (cases "body st")
  with keepsD[OF k assms] obtain l where l: "elements st' loading = Some l" by auto
  show ?thesis
    unfolding r by (simp add: try_finally_def b hideLoading_effect[OF l] has_class_def)
qed

lemma predictXray_begin_effect:
  assumes "elements st loading = Some l" "elements st resultsSection = Some r"
    "elements st resultCard = Some c" "elements st errorMessage = Some m"
  shows "predictXray_begin f st =
    (None, st\<lparr>elements := (elements st)
       (loading \<mapsto> l\<lparr>classList := remove_token ''hidden'' (classList l)\<rparr>,
        resultsSection \<mapsto> r\<lparr>classList := remove_token ''hidden'' (classList r)\<rparr>,
        resultCard \<mapsto> c\<lparr>classList := add_token ''hidden'' (classList c)\<rparr>,
        errorMessage \<mapsto> m\<lparr>classList := add_token ''hidden'' (classList m)\<rparr>),
       requests := requests st @ [Request ''POST'' (API_BASE_URL @ ''/predict'') (Some f)]\<rparr>)"
  using assms by (simp add: predictXray_begin_def showLoading_effect fetch_def)

lemma failed_body:
  assumes "request_failed outcome"
  obtains e where "predictXray_resume now outcome =
    try_finally
      (try_catch (throw e)
         (\<lambda>error. block [console_error ''Prediction error:'' error, showError generic_failure]))
      hideLoading"
  using assms
  by (cases outcome) (simp_all add: request_failed_def predictXray_resume_def generic_failure_def)

lemma badge_offline:
  assumes "elements st badge = Some b"
  shows "block [set_textContent badge ''Offline'', classList_add badge ''text-red-600''] st =
    (None, st\<lparr>elements := (elements st)
       (badge \<mapsto> b\<lparr>textContent := ''Offline'', classList := add_token ''text-red-600'' (classList b)\<rparr>)\<rparr>)"
  using assms by (simp add: dom_ops)

lemmas num_defs = decimal_def to_number_def floor_log2_def round_half_even_def numer_def denom_def
  magnitude_def digit_char_def Let_def

lemma decimal_873: "decimal False 873 (- 1) = Finite False 6143191366710067 (-46)"
  by (simp add: num_defs)


lemma candidate_873_1: "candidate 6143191366710067 (-46) (Suc 0) = None"
  by (simp add: candidate_def num_defs)

lemma candidate_873_2: "candidate 6143191366710067 (-46) (2) = None"
  by (simp add: candidate_def num_defs)

lemma candidate_873_3: "candidate 6143191366710067 (-46) 3 = Some (873, - 1)"
  by (simp add: candidate_def num_defs)

lemma number_to_string_873: "number_to_string (Finite False 6143191366710067 (-46)) = ''87.3''"
  by (simp add: number_to_string_def candidate_873_1 candidate_873_2 candidate_873_3 format_digits_def digit_char_def)

lemma decimal_42: "decimal False 42 (- 1) = Finite False 4728779608739021 (-50)"
  by (simp add: num_defs)


lemma candidate_42_1: "candidate 4728779608739021 (-50) (Suc 0) = None"
  by (simp add: candidate_def num_defs)

lemma candidate_42_2: "candidate 4728779608739021 (-50) 2 = Some (42, - 1)"
  by (simp add: candidate_def num_defs)

lemma number_to_string_42: "number_to_string (Finite False 4728779608739021 (-50)) = ''4.2''"
  by (simp add: number_to_string_def candidate_42_1 candidate_42_2 format_digits_def digit_char_def)

lemma decimal_85: "decimal False 85 (- 1) = Finite False 4785074604081152 (-49)"
  by (simp add: num_defs)


lemma candidate_85_1: "candidate 4785074604081152 (-49) (Suc 0) = None"
  by (simp add: candidate_def num_defs)

lemma candidate_85_2: "candidate 4785074604081152 (-49) 2 = Some (85, - 1)"
  by (simp add: candidate_def num_defs)

lemma number_to_string_85: "number_to_string (Finite False 4785074604081152 (-49)) = ''8.5''"
  by (simp add: number_to_string_def candidate_85_1 candidate_85_2 format_digits_def digit_char_def)

lemma displayResults_effect:
  assumes "get_prop result ''predicted_class'' = Inr cls"
    and "get_prop result ''confidence'' = Inr (JNum c)"
    and "get_prop result ''probabilities'' = Inr probs"
    and "get_prop probs ''Covid'' = Inr (JNum p1)"
    and "get_prop probs ''Pneumonia'' = Inr (JNum p2)"
    and "get_prop probs ''Normal'' = Inr (JNum p3)"
    and "elements st predictionText = Some e1" "elements st confidenceText = Some e2"
    and "elements st covidProb = Some e3" "elements st pneumoniaProb = Some e4"
    and "elements st normalProb = Some e5" "elements st covidBar = Some b1"
    and "elements st pneumoniaBar = Some b2" "elements st normalBar = Some b3"
    and "elements st resultCard = Some rc" "elements st resultsSection = Some rs"
  shows "displayResults result st =
    (None, st\<lparr>elements := (elements st)
       (predictionText \<mapsto> e1\<lparr>textContent := text_of cls\<rparr>,
        confidenceText \<mapsto> e2\<lparr>textContent := ''Confidence: '' @ toFixed1 c @ ''%''\<rparr>,
        covidProb \<mapsto> e3\<lparr>textContent := toFixed1 p1 @ ''%''\<rparr>,
        pneumoniaProb \<mapsto> e4\<lparr>textContent := toFixed1 p2 @ ''%''\<rparr>,
        normalProb \<mapsto> e5\<lparr>textContent := toFixed1 p3 @ ''%''\<rparr>,
        covidBar \<mapsto> b1\<lparr>width := ''0%''\<rparr>,
        pneumoniaBar \<mapsto> b2\<lparr>width := ''0%''\<rparr>,
        normalBar \<mapsto> b3\<lparr>width := ''0%''\<rparr>,
        resultCard \<mapsto> rc\<lparr>classList := remove_token ''hidden'' (classList rc)\<rparr>,
        resultsSection \<mapsto> rs\<lparr>classList := remove_token ''hidden'' (classList rs)\<rparr>),
       timers := timers st @
         [(SetWidth covidBar (JNum p1), 100), (SetWidth pneumoniaBar (JNum p2), 100),
          (SetWidth normalBar (JNum p3), 100)]\<rparr>)"
  using assms
  by (simp add: displayResults_def eval_def member_def toFixed_def animateProgressBar_def
      setTimeout_def dom_ops)

lemma complete_obtain:
  assumes "complete st"
  obtains el where "elements st h = Some el"
  using assms by (auto simp add: complete_def)




lemma storesD: "stores s \<Longrightarrow> localStorage (snd (s st)) = localStorage st"
  by (simp add: stores_def)

lemma stores_update_element [simp]: "stores (update_element h f)"
  by (simp add: stores_def update_element_def split: option.split)

lemma stores_dom_ops [simp]:
  "stores (set_textContent h s)" "stores (set_width h s)" "stores (set_src h s)"
  "stores (classList_add h c)" "stores (classList_remove h c)"
  by (simp_all add: set_textContent_def set_width_def set_src_def classList_add_def
      classList_remove_def)

lemma stores_misc [simp]:
  "stores (throw e)" "stores (console_error msg e)" "stores (console_log msg v)"
  "stores (setTimeout cb ms)" "stores (fetch r)"
  by (simp_all add: stores_def throw_def console_error_def console_log_def setTimeout_def fetch_def)

lemma stores_block [simp]: "list_all stores ss \<Longrightarrow> stores (block ss)"
proof (induction ss)
  case Nil
  show ?case by (simp add: stores_def)
next
  case (Cons s ss)
  then have s: "stores s" and ss: "stores (block ss)" by simp_all
  show ?case
    unfolding stores_def
  proof
    fix st :: page
    obtain r st' where r: "s st = (r, st')" by (cases "s st")
    with storesD[OF s, of st] have "localStorage st' = localStorage st" by simp
    then show "localStorage (snd (block (s # ss) st)) = localStorage st"
      using r storesD[OF ss, of st'] by (cases r) simp_all
  qed
qed

lemma stores_eval [simp]: "(\<And>v. stores (k v)) \<Longrightarrow> stores (eval x k)"
  by (cases x) (simp_all add: stores_def eval_def)

lemma stores_showError [simp]: "stores (showError message)"
  by (simp add: showError_def)

lemma stores_hideLoading [simp]: "stores hideLoading"
  by (simp add: hideLoading_def)

lemma stores_showLoading [simp]: "stores showLoading"
  by (simp add: showLoading_def)

lemma stores_animateProgressBar [simp]: "stores (animateProgressBar bar percentage)"
  by (simp add: animateProgressBar_def)

lemma stores_displayResults [simp]: "stores (displayResults result)"
  by (simp add: displayResults_def)

lemma stores_predictXray_begin [simp]: "stores (predictXray_begin f)"
  by (simp add: predictXray_begin_def)

lemma keeps_showLoading [simp]: "keeps showLoading"
  by (simp add: showLoading_def)

lemma keeps_predictXray_begin [simp]: "keeps (predictXray_begin f)"
  by (simp add: predictXray_begin_def)

text \<open>Every exception of a property read or a \<open>toFixed\<close> call is a TypeError.\<close>

lemma get_prop_error: "get_prop v k = Inl e \<Longrightarrow> e = TypeError"
  by (cases v) simp_all

lemma get_prop_total: "get_prop v k = Inr x \<Longrightarrow> \<exists>y. get_prop v k' = Inr y"
  by (cases v) simp_all

lemma toFixed_not_num:
  assumes "\<not> is_num (member (Inr v) k)"
  shows "toFixed (member (Inr v) k) = Inl TypeError"
proof (cases "get_prop v k")
  case (Inl e)
  then show ?thesis by (simp add: toFixed_def member_def get_prop_error)
next
  case (Inr x)
  then show ?thesis
    using assms by (cases x) (simp_all add: toFixed_def member_def is_num_def)
qed

lemma toFixed_not_num2:
  assumes "\<not> is_num (member (member (Inr v) k) k')"
  shows "toFixed (member (member (Inr v) k) k') = Inl TypeError"
proof (cases "get_prop v k")
  case (Inl e)
  then show ?thesis by (simp add: toFixed_def member_def get_prop_error)
next
  case (Inr x)
  then have "member (member (Inr v) k) k' = member (Inr x) k'"
    by (simp add: member_def)
  with assms show ?thesis by (simp add: toFixed_not_num)
qed

lemma only_TypeError_update [simp]: "only_TypeError (update_element h f)"
  by (simp add: only_TypeError_def update_element_def split: option.split)

lemma only_TypeError_dom_ops [simp]:
  "only_TypeError (set_textContent h s)" "only_TypeError (set_width h s)"
  "only_TypeError (classList_add h c)" "only_TypeError (classList_remove h c)"
  by (simp_all add: set_textContent_def set_width_def classList_add_def classList_remove_def)

lemma block_throws:
  assumes "list_all only_TypeError ss" "\<exists>s \<in> set ss. \<forall>st. fst (s st) = Some TypeError"
  shows "fst (block ss st) = Some TypeError"
  using assms
proof (induction ss arbitrary: st)
  case Nil
  then show ?case by simp
next
  case (Cons s ss)
  obtain r st' where r: "s st = (r, st')" by (cases "s st")
  show ?case
  proof (cases r)
    case (Some e)
    moreover from Cons.prems(1) have "fst (s st) = None \<or> fst (s st) = Some TypeError"
      by (simp add: only_TypeError_def)
    ultimately show ?thesis using r by simp
  next
    case None
    with r have "\<not> (\<forall>st. fst (s st) = Some TypeError)" by (metis fst_conv option.distinct(1))
    with Cons.prems(2) have "\<exists>s \<in> set ss. \<forall>st. fst (s st) = Some TypeError" by auto
    moreover from Cons.prems(1) have "list_all only_TypeError ss" by simp
    ultimately have "fst (block ss st') = Some TypeError" by (rule Cons.IH[rotated])
    with r None show ?thesis by simp
  qed
qed

lemma te_Inr [simp]: "te (Inr v)"
  by (simp add: te_def)

lemma te_member [simp]: "te x \<Longrightarrow> te (member x k)"
  by (cases x) (auto simp add: te_def member_def dest: get_prop_error)

lemma te_toFixed [simp]: "te x \<Longrightarrow> te (toFixed x)"
proof (cases x)
  case (Inl e)
  moreover assume "te x"
  ultimately show ?thesis by (simp add: te_def toFixed_def)
next
  case (Inr v)
  then show ?thesis by (cases v) (simp_all add: te_def toFixed_def)
qed

lemma only_TypeError_eval [simp]:
  "te x \<Longrightarrow> (\<And>v. only_TypeError (k v)) \<Longrightarrow> only_TypeError (eval x k)"
  by (cases x) (simp_all add: te_def only_TypeError_def eval_def)

lemma only_TypeError_setTimeout [simp]: "only_TypeError (setTimeout cb ms)"
  by (simp add: only_TypeError_def setTimeout_def)

lemma only_TypeError_block [simp]: "list_all only_TypeError ss \<Longrightarrow> only_TypeError (block ss)"
proof (induction ss)
  case Nil
  show ?case by (simp add: only_TypeError_def)
next
  case (Cons s ss)
  then have s: "only_TypeError s" and ss: "only_TypeError (block ss)" by simp_all
  show ?case
    unfolding only_TypeError_def
  proof
    fix st :: page
    obtain r st' where r: "s st = (r, st')" by (cases "s st")
    from s have "fst (s st) = None \<or> fst (s st) = Some TypeError" by (simp add: only_TypeError_def)
    moreover from ss have "fst (block ss st') = None \<or> fst (block ss st') = Some TypeError"
      by (simp add: only_TypeError_def)
    ultimately show "fst (block (s # ss) st) = None \<or> fst (block (s # ss) st) = Some TypeError"
      using r by (cases r) auto
  qed
qed

lemma only_TypeError_animateProgressBar [simp]: "only_TypeError (animateProgressBar bar percentage)"
  by (simp add: animateProgressBar_def)

lemma eval_throws: "x = Inl TypeError \<Longrightarrow> fst (eval x k st) = Some TypeError"
  by (simp add: eval_def)

lemma displayResults_throws:
  assumes "\<not> renders result"
  shows "fst (displayResults result st) = Some TypeError"
  unfolding displayResults_def
proof (rule block_throws)
  show "list_all only_TypeError
     [eval (member (Inr result) ''predicted_class'') (\<lambda>v. set_textContent predictionText (text_of v)),
      eval (toFixed (member (Inr result) ''confidence''))
       (\<lambda>s. set_textContent confidenceText (''Confidence: '' @ s @ ''%'')),
      eval (toFixed (member (member (Inr result) ''probabilities'') ''Covid''))
       (\<lambda>s. set_textContent covidProb (s @ ''%'')),
      eval (toFixed (member (member (Inr result) ''probabilities'') ''Pneumonia''))
       (\<lambda>s. set_textContent pneumoniaProb (s @ ''%'')),
      eval (toFixed (member (member (Inr result) ''probabilities'') ''Normal''))
       (\<lambda>s. set_textContent normalProb (s @ ''%'')),
      eval (member (member (Inr result) ''probabilities'') ''Covid'') (animateProgressBar covidBar),
      eval (member (member (Inr result) ''probabilities'') ''Pneumonia'') (animateProgressBar pneumoniaBar),
      eval (member (member (Inr result) ''probabilities'') ''Normal'') (animateProgressBar normalBar),
      classList_remove resultCard ''hidden'', classList_remove resultsSection ''hidden'']"
    by simp
next
  from assms consider
    "\<not> is_num (member (Inr result) ''confidence'')"
    | "\<not> is_num (member (member (Inr result) ''probabilities'') ''Covid'')"
    | "\<not> is_num (member (member (Inr result) ''probabilities'') ''Pneumonia'')"
    | "\<not> is_num (member (member (Inr result) ''probabilities'') ''Normal'')"
    by (auto simp add: renders_def)
  then show "\<exists>s\<in>set
     [eval (member (Inr result) ''predicted_class'') (\<lambda>v. set_textContent predictionText (text_of v)),
      eval (toFixed (member (Inr result) ''confidence''))
       (\<lambda>s. set_textContent confidenceText (''Confidence: '' @ s @ ''%'')),
      eval (toFixed (member (member (Inr result) ''probabilities'') ''Covid''))
       (\<lambda>s. set_textContent covidProb (s @ ''%'')),
      eval (toFixed (member (member (Inr result) ''probabilities'') ''Pneumonia''))
       (\<lambda>s. set_textContent pneumoniaProb (s @ ''%'')),
      eval (toFixed (member (member (Inr result) ''probabilities'') ''Normal''))
       (\<lambda>s. set_textContent normalProb (s @ ''%'')),
      eval (member (member (Inr result) ''probabilities'') ''Covid'') (animateProgressBar covidBar),
      eval (member (member (Inr result) ''probabilities'') ''Pneumonia'') (animateProgressBar pneumoniaBar),
      eval (member (member (Inr result) ''probabilities'') ''Normal'') (animateProgressBar normalBar),
      classList_remove resultCard ''hidden'', classList_remove resultsSection ''hidden''].
     \<forall>st. fst (s st) = Some TypeError"
  proof cases
    case 1
    then show ?thesis by (simp add: toFixed_not_num eval_throws)
  next
    case 2
    then show ?thesis by (simp add: toFixed_not_num2 eval_throws)
  next
    case 3
    then show ?thesis by (simp add: toFixed_not_num2 eval_throws)
  next
    case 4
    then show ?thesis by (simp add: toFixed_not_num2 eval_throws)
  qed
qed

lemma saveLastDiagnosis_effect:
  "saveLastDiagnosis now result st =
     (None,
      if quota st < storage_size (AList.update ''lastDiagnosis'' (saved_text now result) (localStorage st))
      then st\<lparr>console := console st @ [LogError ''Failed to save diagnosis:'' QuotaExceededError]\<rparr>
      else st\<lparr>localStorage := AList.update ''lastDiagnosis'' (saved_text now result) (localStorage st)\<rparr>)"
  by (simp add: saveLastDiagnosis_def try_catch_def setItem_def console_error_def Let_def)

lemma stores_try_catch [simp]:
  assumes "stores body" "\<And>e. stores (handler e)"
  shows "stores (try_catch body handler)"
  unfolding stores_def
proof
  fix st :: page
  obtain r st' where r: "body st = (r, st')" by (cases "body st")
  with storesD[OF assms(1), of st] have "localStorage st' = localStorage st" by simp
  then show "localStorage (snd (try_catch body handler st)) = localStorage st"
    using r storesD[OF assms(2), of _ st'] by (cases r) (simp_all add: try_catch_def)
qed

lemma stores_try_finally [simp]:
  assumes "stores body" "stores cleanup"
  shows "stores (try_finally body cleanup)"
  unfolding stores_def
proof
  fix st :: page
  obtain r st' where r: "body st = (r, st')" by (cases "body st")
  with storesD[OF assms(1), of st] have 1: "localStorage st' = localStorage st" by simp
  obtain r' st'' where r': "cleanup st' = (r', st'')" by (cases "cleanup st'")
  with storesD[OF assms(2), of st'] have "localStorage st'' = localStorage st'" by simp
  with 1 show "localStorage (snd (try_finally body cleanup st)) = localStorage st"
    using r r' by (cases r') (simp_all add: try_finally_def)
qed

lemma complete_keeps: "keeps s \<Longrightarrow> complete st \<Longrightarrow> complete (snd (s st))"
  by (simp add: keeps_def complete_def)

lemma block_first_throws:
  "fst (s st) = Some e \<Longrightarrow> block (s # ss) st = s st"
  by (cases "s st") auto

lemma try_catch_cong_body:
  "body st = body' st \<Longrightarrow> try_catch body handler st = try_catch body' handler st"
  by (simp add: try_catch_def)

lemma try_finally_cong_body:
  "body st = body' st \<Longrightarrow> try_finally body cleanup st = try_finally body' cleanup st"
  by (simp add: try_finally_def)

text \<open>When the body cannot be rendered, \<open>predictXray_resume\<close> runs as if the try block were \<open>displayResults\<close> alone.\<close>

lemma resume_unrenderable:
  assumes "response_ok status" "\<not> renders result"
  shows "predictXray_resume now (Response status (BodyJson result)) st =
    try_finally
      (try_catch (displayResults result)
         (\<lambda>error. block [console_error ''Prediction error:'' error, showError generic_failure]))
      hideLoading st"
proof -
  have "block [displayResults result, saveLastDiagnosis now result] st = displayResults result st"
    using displayResults_throws[OF assms(2)] by (rule block_first_throws)
  then show ?thesis
    using assms(1)
    by (simp add: predictXray_resume_def generic_failure_def try_finally_def try_catch_def)
qed

lemma unsuccessful_keeps_storage:
  assumes "\<not> prediction_succeeded outcome"
  shows "localStorage (snd (predictXray_resume now outcome st)) = localStorage st"
proof (cases outcome)
  case FetchRejected
  have "stores (predictXray_resume now FetchRejected)"
    by (simp add: predictXray_resume_def)
  then show ?thesis using FetchRejected by (simp add: storesD)
next
  case (Response status body)
  show ?thesis
  proof (cases "response_ok status")
    case False
    then have "stores (predictXray_resume now (Response status body))"
      by (simp add: predictXray_resume_def)
    then show ?thesis using Response by (simp add: storesD)
  next
    case True
    show ?thesis
    proof (cases body)
      case (BodyRejected e)
      have "stores (predictXray_resume now (Response status (BodyRejected e)))"
        by (simp add: predictXray_resume_def)
      then show ?thesis using Response BodyRejected by (simp add: storesD)
    next
      case (BodyJson result)
      with assms Response True have nr: "\<not> renders result"
        by (simp add: prediction_succeeded_def)
      have "stores (try_finally
        (try_catch (displayResults result)
           (\<lambda>error. block [console_error ''Prediction error:'' error, showError generic_failure]))
        hideLoading)"
        by simp
      then show ?thesis
        using Response BodyJson by (simp add: resume_unrenderable[OF True nr] storesD)
    qed
  qed
qed

lemma predictXray_success:
  assumes "complete st" "response_ok status"
    and "get_prop result ''predicted_class'' = Inr cls"
    and "get_prop result ''confidence'' = Inr (JNum c)"
    and "get_prop result ''probabilities'' = Inr probs"
    and "get_prop probs ''Covid'' = Inr (JNum p1)"
    and "get_prop probs ''Pneumonia'' = Inr (JNum p2)"
    and "get_prop probs ''Normal'' = Inr (JNum p3)"
  shows "fst (predictXray now (Response status (BodyJson result)) f st) = None \<and>
    shown (snd (predictXray now (Response status (BodyJson result)) f st)) resultCard \<and>
    shown (snd (predictXray now (Response status (BodyJson result)) f st)) resultsSection \<and>
    has_class (snd (predictXray now (Response status (BodyJson result)) f st)) errorMessage ''hidden'' \<and>
    has_class (snd (predictXray now (Response status (BodyJson result)) f st)) loading ''hidden'' \<and>
    text_at (snd (predictXray now (Response status (BodyJson result)) f st)) predictionText =
      Some (text_of cls) \<and>
    localStorage (snd (predictXray now (Response status (BodyJson result)) f st)) =
      (if quota st < storage_size (AList.update ''lastDiagnosis'' (saved_text now result) (localStorage st))
       then localStorage st
       else AList.update ''lastDiagnosis'' (saved_text now result) (localStorage st))"
proof -
  have ex: "\<exists>el. elements st h = Some el" for h
    using assms(1) by (simp add: complete_def)
  obtain l where l: "elements st loading = Some l" using ex by blast
  obtain m where m: "elements st errorMessage = Some m" using ex by blast
  obtain e1 where e1: "elements st predictionText = Some e1" using ex by blast
  obtain e2 where e2: "elements st confidenceText = Some e2" using ex by blast
  obtain e3 where e3: "elements st covidProb = Some e3" using ex by blast
  obtain e4 where e4: "elements st pneumoniaProb = Some e4" using ex by blast
  obtain e5 where e5: "elements st normalProb = Some e5" using ex by blast
  obtain b1 where b1: "elements st covidBar = Some b1" using ex by blast
  obtain b2 where b2: "elements st pneumoniaBar = Some b2" using ex by blast
  obtain b3 where b3: "elements st normalBar = Some b3" using ex by blast
  obtain rc where rc: "elements st resultCard = Some rc" using ex by blast
  obtain rs where rs: "elements st resultsSection = Some rs" using ex by blast
  define st1 where "st1 = snd (predictXray_begin f st)"
  have bgn: "predictXray_begin f st = (None, st1)"
    unfolding st1_def using predictXray_begin_effect[OF l rs rc m] by simp
  have st1: "elements st1 predictionText = Some e1" "elements st1 confidenceText = Some e2"
    "elements st1 covidProb = Some e3" "elements st1 pneumoniaProb = Some e4"
    "elements st1 normalProb = Some e5" "elements st1 covidBar = Some b1"
    "elements st1 pneumoniaBar = Some b2" "elements st1 normalBar = Some b3"
    "elements st1 resultCard = Some (rc\<lparr>classList := add_token ''hidden'' (classList rc)\<rparr>)"
    "elements st1 resultsSection = Some (rs\<lparr>classList := remove_token ''hidden'' (classList rs)\<rparr>)"
    and more: "elements st1 loading = Some (l\<lparr>classList := remove_token ''hidden'' (classList l)\<rparr>)"
    "elements st1 errorMessage = Some (m\<lparr>classList := add_token ''hidden'' (classList m)\<rparr>)"
    "localStorage st1 = localStorage st" "quota st1 = quota st"
    unfolding st1_def predictXray_begin_effect[OF l rs rc m]
    using e1 e2 e3 e4 e5 b1 b2 b3 by simp_all
  define st2 where "st2 = snd (displayResults result st1)"
  note eff = displayResults_effect[OF assms(3-8) st1]
  have disp: "displayResults result st1 = (None, st2)"
    unfolding st2_def eff by simp
  have st2: "elements st2 loading = Some (l\<lparr>classList := remove_token ''hidden'' (classList l)\<rparr>)"
    "elements st2 errorMessage = Some (m\<lparr>classList := add_token ''hidden'' (classList m)\<rparr>)"
    "elements st2 predictionText = Some (e1\<lparr>textContent := text_of cls\<rparr>)"
    "shown st2 resultCard" "shown st2 resultsSection"
    "localStorage st2 = localStorage st" "quota st2 = quota st"
    unfolding st2_def eff using more by (simp_all add: shown_def)
  define st3 where "st3 = snd (saveLastDiagnosis now result st2)"
  have save: "saveLastDiagnosis now result st2 = (None, st3)"
    unfolding st3_def by (simp add: saveLastDiagnosis_effect)
  have st3: "elements st3 = elements st2"
    "localStorage st3 =
      (if quota st < storage_size (AList.update ''lastDiagnosis'' (saved_text now result) (localStorage st))
       then localStorage st
       else AList.update ''lastDiagnosis'' (saved_text now result) (localStorage st))"
    unfolding st3_def by (simp_all add: saveLastDiagnosis_effect st2)
  have l3: "elements st3 loading = Some (l\<lparr>classList := remove_token ''hidden'' (classList l)\<rparr>)"
    by (simp add: st3 st2)
  have "predictXray now (Response status (BodyJson result)) f st =
    (None, st3\<lparr>elements := (elements st3)(loading \<mapsto>
        l\<lparr>classList := add_token ''hidden'' (remove_token ''hidden'' (classList l))\<rparr>)\<rparr>)"
    using assms(2)
    by (simp add: predictXray_def bgn predictXray_resume_def try_finally_def try_catch_def
        disp save hideLoading_effect[OF l3])
  then show ?thesis
    using st2 st3 by (simp add: shown_def has_class_def text_at_def)
qed

lemma quote_plain: "list_all (\<lambda>c. c \<noteq> CHR 0x22 \<and> c \<noteq> CHR 0x5C \<and> 32 \<le> (of_char c :: nat)) s \<Longrightarrow>
    quote s = CHR 0x22 # s @ [CHR 0x22]"
proof -
  assume a: "list_all (\<lambda>c. c \<noteq> CHR 0x22 \<and> c \<noteq> CHR 0x5C \<and> 32 \<le> (of_char c :: nat)) s"
  have "concat (map quote_unit s) = s"
    using a
  proof (induction s)
    case Nil
    then show ?case by simp
  next
    case (Cons c s)
    then have "quote_unit c = [c]"
      by (auto simp add: quote_unit_def)
    with Cons show ?case by simp
  qed
  then show ?thesis by (simp add: quote_def)
qed

lemma saved_text_mock: "saved_text mock_now mock_result = mock_text"
  by (simp add: saved_text_def mock_now_def mock_result_def mock_text_def own_props_def
      decimal_873 decimal_42 decimal_85 number_to_string_873 number_to_string_42 number_to_string_85
      quote_plain)

lemma renders_obtain:
  assumes "renders result"
  obtains cls c probs p1 p2 p3 where
    "get_prop result ''predicted_class'' = Inr cls"
    "get_prop result ''confidence'' = Inr (JNum c)"
    "get_prop result ''probabilities'' = Inr probs"
    "get_prop probs ''Covid'' = Inr (JNum p1)"
    "get_prop probs ''Pneumonia'' = Inr (JNum p2)"
    "get_prop probs ''Normal'' = Inr (JNum p3)"
proof -
  have num: "\<exists>n. x = Inr (JNum n)" if "is_num x" for x
  proof (cases x)
    case (Inl e)
    with that show ?thesis by (simp add: is_num_def)
  next
    case (Inr v)
    with that show ?thesis by (cases v) (simp_all add: is_num_def)
  qed
  from assms obtain c where c: "get_prop result ''confidence'' = Inr (JNum c)"
    using num[of "member (Inr result) ''confidence''"] by (auto simp add: renders_def member_def)
  then obtain cls where cls: "get_prop result ''predicted_class'' = Inr cls"
    using get_prop_total by blast
  from c obtain probs where probs: "get_prop result ''probabilities'' = Inr probs"
    using get_prop_total by blast
  then have m: "member (member (Inr result) ''probabilities'') k = get_prop probs k" for k
    by (simp add: member_def)
  from assms obtain p1 p2 p3 where "get_prop probs ''Covid'' = Inr (JNum p1)"
    "get_prop probs ''Pneumonia'' = Inr (JNum p2)" "get_prop probs ''Normal'' = Inr (JNum p3)"
    using num[of "get_prop probs ''Covid''"] num[of "get_prop probs ''Pneumonia''"]
      num[of "get_prop probs ''Normal''"]
    by (auto simp add: renders_def m)
  with cls c probs show ?thesis by (rule that)
qed

lemmas parse_defs = JSON_parse_def skip_ws_def is_ws_def literal_def parse_number_def
  number_of_token_def is_number_char_def is_digit_def nat_of_digits_def digit_val_def hex_val_def Let_def










lemma after_ok_simps [simp]:
  "after_ok []" "after_ok (CHR '','' # r)" "after_ok (CHR '']'' # r)" "after_ok (CHR ''}'' # r)"
  by (simp_all add: after_ok_def is_number_char_def is_digit_def)

lemma ws_simps [simp]:
  "\<not> is_ws CHR '',''" "\<not> is_ws CHR '']''" "\<not> is_ws CHR ''}''" "\<not> is_ws CHR '':''"
  "\<not> is_ws CHR 0x22" "\<not> is_ws CHR ''{''" "\<not> is_ws CHR ''[''"
  by (simp_all add: is_ws_def)













subsection \<open>The claims\<close>

text \<open>
  Claim C1. A file whose declared type is none of image/png, image/jpeg, image/jpg, or whose
  size exceeds 10 MiB, makes \<open>handleFiles\<close> issue no network request: the list of requests
  is the one before the call, so \<open>predictXray\<close> has not run. On a page that has the error
  message elements the call completes, the error message is on screen and its text is the
  validation message of the check that failed.
\<close>

theorem rejected_file_no_request:
  assumes "ftype f \<notin> set allowedTypes \<or> maxSize < fsize f"
  shows "requests (snd (handleFiles (f # rest) st)) = requests st \<and>
    (elements st errorText \<noteq> None \<and> elements st errorMessage \<noteq> None \<and>
     elements st resultsSection \<noteq> None \<longrightarrow>
       fst (handleFiles (f # rest) st) = None \<and>
       shown (snd (handleFiles (f # rest) st)) errorMessage \<and>
       text_at (snd (handleFiles (f # rest) st)) errorText =
         Some (if ftype f \<notin> set allowedTypes
               then ''Please select a valid image file (PNG, JPG, or JPEG).''
               else ''File size must be less than 10MB.''))"
proof -
  define msg where "msg = (if ftype f \<notin> set allowedTypes
               then ''Please select a valid image file (PNG, JPG, or JPEG).''
               else ''File size must be less than 10MB.'')"
  have "validateFile f st =
     (case showError msg st of (Some e, st') \<Rightarrow> (Inl e, st') | (None, st') \<Rightarrow> (Inr False, st'))"
  proof (cases "ftype f \<in> set allowedTypes")
    case True
    with assms have "maxSize < fsize f" by blast
    with True show ?thesis by (simp only: msg_def validateFile_too_big simp_thms if_False)
  next
    case False
    then show ?thesis by (simp only: msg_def validateFile_bad_type simp_thms if_True)
  qed
  then have eq: "handleFiles (f # rest) st = showError msg st"
    by (rule handleFiles_rejected)
  have "requests (snd (handleFiles (f # rest) st)) = requests st"
    unfolding eq by (rule showError_requests)
  moreover have "fst (handleFiles (f # rest) st) = None \<and>
       shown (snd (handleFiles (f # rest) st)) errorMessage \<and>
       text_at (snd (handleFiles (f # rest) st)) errorText = Some msg"
    if "elements st errorText \<noteq> None \<and> elements st errorMessage \<noteq> None \<and>
     elements st resultsSection \<noteq> None"
  proof -
    from that obtain t m r where "elements st errorText = Some t" "elements st errorMessage = Some m"
      "elements st resultsSection = Some r" by auto
    then show ?thesis
      unfolding eq by (simp add: showError_effect shown_def text_at_def)
  qed
  ultimately show ?thesis unfolding msg_def by blast
qed

theorem rejected_file_no_request_witness:
  "requests (snd (handleFiles [\<lparr>ftype = ''application/pdf'', fsize = 2048\<rparr>] sample_page)) = [] \<and>
   fst (handleFiles [\<lparr>ftype = ''application/pdf'', fsize = 2048\<rparr>] sample_page) = None \<and>
   shown (snd (handleFiles [\<lparr>ftype = ''application/pdf'', fsize = 2048\<rparr>] sample_page)) errorMessage \<and>
   text_at (snd (handleFiles [\<lparr>ftype = ''application/pdf'', fsize = 2048\<rparr>] sample_page)) errorText =
     Some ''Please select a valid image file (PNG, JPG, or JPEG).''"
  using rejected_file_no_request
    [where f = "\<lparr>ftype = ''application/pdf'', fsize = 2048\<rparr>" and rest = "[]" and st = sample_page]
  by (simp add: sample_page_def allowedTypes_def)



text \<open>
  Claim C3. When the request fails (the fetch promise rejects, or the status is not 2xx),
  \<open>predictXray\<close> completes with the generic failure message as the text of the error
  message, the error message on screen, the results section hidden, and the result card
  hidden as \<open>showLoading\<close> left it.
\<close>

theorem failed_request_shows_error:
  assumes "request_failed outcome"
    and "elements st loading \<noteq> None" "elements st resultsSection \<noteq> None"
    and "elements st resultCard \<noteq> None" "elements st errorMessage \<noteq> None"
    and "elements st errorText \<noteq> None"
  shows "fst (predictXray now outcome f st) = None \<and>
    text_at (snd (predictXray now outcome f st)) errorText = Some generic_failure \<and>
    shown (snd (predictXray now outcome f st)) errorMessage \<and>
    has_class (snd (predictXray now outcome f st)) resultsSection ''hidden'' \<and>
    has_class (snd (predictXray now outcome f st)) resultCard ''hidden'' \<and>
    has_class (snd (predictXray now outcome f st)) loading ''hidden''"
proof -
  from assms obtain l r c m t where el: "elements st loading = Some l"
    "elements st resultsSection = Some r" "elements st resultCard = Some c"
    "elements st errorMessage = Some m" and t: "elements st errorText = Some t" by auto
  from assms(1) obtain e where r: "predictXray_resume now outcome =
    try_finally
      (try_catch (throw e)
         (\<lambda>error. block [console_error ''Prediction error:'' error, showError generic_failure]))
      hideLoading"
    by (rule failed_body)
  show ?thesis
    unfolding predictXray_def predictXray_begin_effect[OF el] r
    using t
    by (simp add: try_finally_def try_catch_def throw_def console_error_def showError_effect
        hideLoading_effect has_class_def shown_def text_at_def)
qed

theorem failed_request_shows_error_witness:
  "request_failed (Response 500 (BodyJson JNull)) \<and>
   fst (predictXray ''2026-01-01T00:00:00.000Z'' (Response 500 (BodyJson JNull)) sample_png sample_page) = None \<and>
   text_at (snd (predictXray ''2026-01-01T00:00:00.000Z'' (Response 500 (BodyJson JNull)) sample_png sample_page))
     errorText = Some ''Failed to analyze the image. Please try again.'' \<and>
   shown (snd (predictXray ''2026-01-01T00:00:00.000Z'' (Response 500 (BodyJson JNull)) sample_png sample_page))
     errorMessage \<and>
   has_class (snd (predictXray ''2026-01-01T00:00:00.000Z'' (Response 500 (BodyJson JNull)) sample_png sample_page))
     resultsSection ''hidden'' \<and>
   has_class (snd (predictXray ''2026-01-01T00:00:00.000Z'' (Response 500 (BodyJson JNull)) sample_png sample_page))
     resultCard ''hidden''"
  using failed_request_shows_error
    [where outcome = "Response 500 (BodyJson JNull)" and st = sample_page and f = sample_png
       and now = "''2026-01-01T00:00:00.000Z''"]
  by (simp add: request_failed_def response_ok_def sample_page_def generic_failure_def)

text \<open>
  Claim C4. Whatever the request gives back (a rejected fetch, any status, a body that does
  not parse, a value that cannot be rendered or saved), after \<open>predictXray\<close> the loading
  element carries the class \<open>hidden\<close>: \<open>hideLoading\<close> has run. The page has the four
  elements \<open>showLoading\<close> touches, so that the try block is entered.
\<close>

theorem loading_always_exits:
  assumes "elements st loading \<noteq> None" "elements st resultsSection \<noteq> None"
    and "elements st resultCard \<noteq> None" "elements st errorMessage \<noteq> None"
  shows "has_class (snd (predictXray now outcome f st)) loading ''hidden''"
proof -
  from assms obtain l r c m where el: "elements st loading = Some l"
    "elements st resultsSection = Some r" "elements st resultCard = Some c"
    "elements st errorMessage = Some m" by auto
  show ?thesis
    unfolding predictXray_def predictXray_begin_effect[OF el]
    by (simp add: resume_hides_loading)
qed

theorem loading_always_exits_witness:
  "elements sample_page loading \<noteq> None \<and>
   has_class (snd (predictXray ''2026-01-01T00:00:00.000Z'' (Response 200 (BodyRejected SyntaxError))
      sample_png sample_page)) loading ''hidden''"
  using loading_always_exits
    [where outcome = "Response 200 (BodyRejected SyntaxError)" and st = sample_page and f = sample_png
       and now = "''2026-01-01T00:00:00.000Z''"]
  by (simp add: sample_page_def)

text \<open>
  Claim C5. For an accepted file, \<open>handleFiles\<close> enters the loading state: afterwards the
  result card and the error message carry \<open>hidden\<close>, the loading indicator and the results
  section do not, and the POST request to /predict is the last request issued. The
  elements are exactly as \<open>showLoading\<close> leaves them.
\<close>

theorem loading_state_hides_previous:
  assumes "ftype f \<in> set allowedTypes" "fsize f \<le> maxSize"
    and "elements st loading \<noteq> None" "elements st resultsSection \<noteq> None"
    and "elements st resultCard \<noteq> None" "elements st errorMessage \<noteq> None"
  shows "fst (handleFiles (f # rest) st) = None \<and>
    has_class (snd (handleFiles (f # rest) st)) resultCard ''hidden'' \<and>
    has_class (snd (handleFiles (f # rest) st)) errorMessage ''hidden'' \<and>
    shown (snd (handleFiles (f # rest) st)) loading \<and>
    shown (snd (handleFiles (f # rest) st)) resultsSection \<and>
    requests (snd (handleFiles (f # rest) st)) =
      requests st @ [Request ''POST'' (API_BASE_URL @ ''/predict'') (Some f)] \<and>
    elements (snd (handleFiles (f # rest) st)) = elements (snd (showLoading st))"
proof -
  from assms obtain l r c m where el: "elements st loading = Some l"
    "elements st resultsSection = Some r" "elements st resultCard = Some c"
    "elements st errorMessage = Some m" by auto
  have v: "validateFile f st = (Inr True, st)"
    using assms(1,2) by (rule validateFile_accepted)
  show ?thesis
    using el
    by (simp add: handleFiles_def v showImagePreview_def predictXray_begin_def showLoading_effect
        fetch_def has_class_def shown_def)
qed

theorem loading_state_hides_previous_witness:
  "fst (handleFiles [sample_png] sample_page) = None \<and>
   has_class (snd (handleFiles [sample_png] sample_page)) resultCard ''hidden'' \<and>
   has_class (snd (handleFiles [sample_png] sample_page)) errorMessage ''hidden'' \<and>
   shown (snd (handleFiles [sample_png] sample_page)) loading \<and>
   shown (snd (handleFiles [sample_png] sample_page)) resultsSection \<and>
   requests (snd (handleFiles [sample_png] sample_page)) =
     [Request ''POST'' ''http://localhost:8000/predict'' (Some sample_png)]"
  using loading_state_hides_previous [where f = sample_png and rest = "[]" and st = sample_page]
  by (simp add: sample_page_def sample_png_def allowedTypes_def maxSize_def API_BASE_URL_def)



text \<open>
  Claim C7. On a complete page, every outcome but a successful prediction (a rejected
  fetch, a status that is not 2xx, a body that does not parse or does not render) leaves the
  local storage as it was. A successful prediction completes and shows the result card
  whether or not the write is accepted; the storage then holds, under \<open>lastDiagnosis\<close>,
  the JSON text of the result's properties with \<open>timestamp\<close> set to the capture time, or
  is unchanged when the quota rejects the write.
\<close>

theorem cache_written_only_on_success:
  assumes "complete st"
  shows "(\<not> prediction_succeeded outcome \<longrightarrow>
       localStorage (snd (predictXray now outcome f st)) = localStorage st) \<and>
    (response_ok status \<and> renders result \<longrightarrow>
       fst (predictXray now (Response status (BodyJson result)) f st) = None \<and>
       shown (snd (predictXray now (Response status (BodyJson result)) f st)) resultCard \<and>
       has_class (snd (predictXray now (Response status (BodyJson result)) f st)) errorMessage ''hidden'' \<and>
       localStorage (snd (predictXray now (Response status (BodyJson result)) f st)) =
         (if quota st < storage_size (AList.update ''lastDiagnosis'' (saved_text now result) (localStorage st))
          then localStorage st
          else AList.update ''lastDiagnosis'' (saved_text now result) (localStorage st))) \<and>
    JSON_stringify (JObj (AList.update ''timestamp'' (JStr now) (own_props result))) =
      Some (saved_text now result) \<and>
    map_of (AList.update ''timestamp'' (JStr now) (own_props result)) ''timestamp'' = Some (JStr now) \<and>
    (\<forall>k. k \<noteq> ''timestamp'' \<longrightarrow>
       map_of (AList.update ''timestamp'' (JStr now) (own_props result)) k = map_of (own_props result) k)"
proof -
  have 1: "localStorage (snd (predictXray now outcome f st)) = localStorage st"
    if "\<not> prediction_succeeded outcome"
  proof -
    obtain r st1 where b: "predictXray_begin f st = (r, st1)" by (cases "predictXray_begin f st")
    have s1: "localStorage st1 = localStorage st"
      using storesD[OF stores_predictXray_begin, of f st] b by simp
    show ?thesis
      using b s1 unsuccessful_keeps_storage[OF that, of now st1]
      by (cases r) (simp_all add: predictXray_def)
  qed
  have 2: "fst (predictXray now (Response status (BodyJson result)) f st) = None \<and>
       shown (snd (predictXray now (Response status (BodyJson result)) f st)) resultCard \<and>
       has_class (snd (predictXray now (Response status (BodyJson result)) f st)) errorMessage ''hidden'' \<and>
       localStorage (snd (predictXray now (Response status (BodyJson result)) f st)) =
         (if quota st < storage_size (AList.update ''lastDiagnosis'' (saved_text now result) (localStorage st))
          then localStorage st
          else AList.update ''lastDiagnosis'' (saved_text now result) (localStorage st))"
    if ok: "response_ok status" and r: "renders result"
  proof -
    from r obtain cls c probs p1 p2 p3 where g:
      "get_prop result ''predicted_class'' = Inr cls"
      "get_prop result ''confidence'' = Inr (JNum c)"
      "get_prop result ''probabilities'' = Inr probs"
      "get_prop probs ''Covid'' = Inr (JNum p1)"
      "get_prop probs ''Pneumonia'' = Inr (JNum p2)"
      "get_prop probs ''Normal'' = Inr (JNum p3)"
      by (rule renders_obtain)
    from predictXray_success[OF assms ok g, of now f] show ?thesis by blast
  qed
  have 3: "JSON_stringify (JObj (AList.update ''timestamp'' (JStr now) (own_props result))) =
      Some (saved_text now result)"
    by (simp add: saved_text_def)
  have 4: "map_of (AList.update ''timestamp'' (JStr now) (own_props result)) ''timestamp'' = Some (JStr now)"
    by (simp add: update_conv')
  have 5: "map_of (AList.update ''timestamp'' (JStr now) (own_props result)) k = map_of (own_props result) k"
    if "k \<noteq> ''timestamp''" for k
    using that by (simp add: update_conv')
  from 1 2 3 4 5 show ?thesis by blast
qed

theorem cache_written_only_on_success_witness:
  "complete sample_page \<and>
   \<not> prediction_succeeded (Response 500 (BodyJson mock_result)) \<and>
   localStorage (snd (predictXray mock_now (Response 500 (BodyJson mock_result)) sample_png sample_page)) = [] \<and>
   response_ok 200 \<and> renders mock_result \<and>
   fst (predictXray mock_now (Response 200 (BodyJson mock_result)) sample_png sample_page) = None \<and>
   shown (snd (predictXray mock_now (Response 200 (BodyJson mock_result)) sample_png sample_page)) resultCard \<and>
   localStorage (snd (predictXray mock_now (Response 200 (BodyJson mock_result)) sample_png sample_page)) =
     [(''lastDiagnosis'', mock_text)] \<and>
   localStorage (snd (predictXray mock_now (Response 200 (BodyJson mock_result)) sample_png
       (sample_page\<lparr>quota := 100\<rparr>))) = []"
proof -
  have c: "complete sample_page" "complete (sample_page\<lparr>quota := 100\<rparr>)"
    by (simp_all add: complete_def sample_page_def)
  have r: "renders mock_result"
    by (simp add: renders_def is_num_def member_def mock_result_def)
  have len: "length mock_text = 145"
    by (simp add: mock_text_def)
  have ls: "localStorage sample_page = []" "quota sample_page = 5242880"
    by (simp_all add: sample_page_def)
  show ?thesis
    using cache_written_only_on_success[OF c(1), where outcome = "Response 500 (BodyJson mock_result)"
        and status = 200 and result = mock_result and now = mock_now and f = sample_png]
      cache_written_only_on_success[OF c(2), where outcome = "Response 500 (BodyJson mock_result)"
        and status = 200 and result = mock_result and now = mock_now and f = sample_png]
    by (simp add: c r len ls saved_text_mock prediction_succeeded_def response_ok_def storage_size_def)
qed

text \<open>
  Claim C8. On a page with the status badge, \<open>checkServerStatus\<close> never rejects its promise
  and leaves the badge in exactly one of three states: model loaded (when the body's
  \<open>model_loaded\<close> is truthy), no model, or offline. Every failed probe (rejected fetch, status
  that is not 2xx, body that does not parse) leaves it reading Offline.
\<close>

theorem status_probe_total:
  assumes "elements st badge \<noteq> None"
  shows "fst (checkServerStatus outcome st) = None \<and>
    ((text_at (snd (checkServerStatus outcome st)) badge = Some ''Ready (model loaded)'' \<and>
       has_class (snd (checkServerStatus outcome st)) badge ''text-green-600'' \<and> model_loaded outcome) \<or>
     (text_at (snd (checkServerStatus outcome st)) badge = Some ''Ready (no model)'' \<and>
       has_class (snd (checkServerStatus outcome st)) badge ''text-yellow-600'' \<and>
       \<not> model_loaded outcome \<and> \<not> probe_failed outcome) \<or>
     (text_at (snd (checkServerStatus outcome st)) badge = Some ''Offline'' \<and>
       has_class (snd (checkServerStatus outcome st)) badge ''text-red-600'' \<and> \<not> model_loaded outcome)) \<and>
    (probe_failed outcome \<longrightarrow>
       text_at (snd (checkServerStatus outcome st)) badge = Some ''Offline'' \<and>
       has_class (snd (checkServerStatus outcome st)) badge ''text-red-600'')"
proof -
  from assms obtain b where b: "elements st badge = Some b" by auto
  show ?thesis
  proof (cases outcome)
    case FetchRejected
    then show ?thesis
      using b
      by (simp add: checkServerStatus_def try_catch_def fetch_def throw_def dom_ops
          text_at_def has_class_def probe_failed_def model_loaded_def)
  next
    case (Response status body)
    show ?thesis
    proof (cases "response_ok status")
      case False
      then show ?thesis
        using b Response
        by (simp add: checkServerStatus_def try_catch_def fetch_def throw_def dom_ops
            text_at_def has_class_def probe_failed_def model_loaded_def)
    next
      case True
      show ?thesis
      proof (cases body)
        case (BodyRejected e)
        then show ?thesis
          using b Response True
          by (simp add: checkServerStatus_def try_catch_def fetch_def throw_def dom_ops
              text_at_def has_class_def probe_failed_def model_loaded_def)
      next
        case (BodyJson json)
        show ?thesis
        proof (cases "get_prop json ''model_loaded''")
          case (Inl e)
          then show ?thesis
            using b Response True BodyJson
            by (simp add: checkServerStatus_def try_catch_def fetch_def throw_def eval_def dom_ops
                text_at_def has_class_def probe_failed_def model_loaded_def)
        next
          case (Inr v)
          then show ?thesis
            using b Response True BodyJson
            by (cases "truthy v")
              (simp_all add: checkServerStatus_def try_catch_def fetch_def throw_def eval_def dom_ops
                text_at_def has_class_def probe_failed_def model_loaded_def)
        qed
      qed
    qed
  qed
qed

theorem status_probe_total_witness:
  "elements sample_page badge \<noteq> None \<and>
   probe_failed (Response 503 (BodyRejected SyntaxError)) \<and>
   fst (checkServerStatus (Response 503 (BodyRejected SyntaxError)) sample_page) = None \<and>
   text_at (snd (checkServerStatus (Response 503 (BodyRejected SyntaxError)) sample_page)) badge = Some ''Offline''"
  using status_probe_total [where outcome = "Response 503 (BodyRejected SyntaxError)" and st = sample_page]
  by (simp add: sample_page_def probe_failed_def response_ok_def)

text \<open>
  Claim C9. A file of exactly 10 * 1024 * 1024 bytes with an allowed type passes
  \<open>validateFile\<close>, which changes nothing; one byte more is rejected, and the message shown
  then says the size must be less than 10MB.
\<close>

theorem exact_limit_accepted:
  assumes "ftype f \<in> set allowedTypes" "fsize f = 10 * 1024 * 1024"
  shows "validateFile f st = (Inr True, st) \<and>
    (elements st errorText \<noteq> None \<and> elements st errorMessage \<noteq> None \<and>
     elements st resultsSection \<noteq> None \<longrightarrow>
       fst (validateFile (f\<lparr>fsize := fsize f + 1\<rparr>) st) = Inr False \<and>
       text_at (snd (validateFile (f\<lparr>fsize := fsize f + 1\<rparr>) st)) errorText =
         Some ''File size must be less than 10MB.'')"
proof -
  have "validateFile f st = (Inr True, st)"
    using assms by (simp add: validateFile_accepted maxSize_def)
  moreover have "fst (validateFile (f\<lparr>fsize := fsize f + 1\<rparr>) st) = Inr False \<and>
       text_at (snd (validateFile (f\<lparr>fsize := fsize f + 1\<rparr>) st)) errorText =
         Some ''File size must be less than 10MB.''"
    if "elements st errorText \<noteq> None \<and> elements st errorMessage \<noteq> None \<and>
     elements st resultsSection \<noteq> None"
  proof -
    from that obtain t m r where "elements st errorText = Some t" "elements st errorMessage = Some m"
      "elements st resultsSection = Some r" by auto
    moreover have "ftype (f\<lparr>fsize := fsize f + 1\<rparr>) \<in> set allowedTypes"
      "maxSize < fsize (f\<lparr>fsize := fsize f + 1\<rparr>)"
      using assms by (simp_all add: maxSize_def)
    ultimately show ?thesis
      by (simp add: validateFile_too_big showError_effect text_at_def)
  qed
  ultimately show ?thesis by blast
qed

theorem exact_limit_accepted_witness:
  "validateFile \<lparr>ftype = ''image/jpeg'', fsize = 10485760\<rparr> sample_page = (Inr True, sample_page) \<and>
   fst (validateFile \<lparr>ftype = ''image/jpeg'', fsize = 10485761\<rparr> sample_page) = Inr False \<and>
   text_at (snd (validateFile \<lparr>ftype = ''image/jpeg'', fsize = 10485761\<rparr> sample_page)) errorText =
     Some ''File size must be less than 10MB.''"
  using exact_limit_accepted
    [where f = "\<lparr>ftype = ''image/jpeg'', fsize = 10485760\<rparr>" and st = sample_page]
  by (simp add: sample_page_def allowedTypes_def)

text \<open>
  Claim C10, as amended. For a 2xx response whose body has no numeric \<open>confidence\<close> or lacks a
  numeric \<open>Covid\<close>, \<open>Pneumonia\<close> or \<open>Normal\<close> probability (a missing probabilities map
  included), rendering throws a TypeError, \<open>predictXray\<close> catches it and logs it, the generic
  failure message is shown, the results section is hidden, the loading state exits and the
  promise is not rejected. The counterexample below is a body that lacks only
  \<open>predicted_class\<close>: nothing is thrown, no message is shown and the result card is displayed.
\<close>

theorem unrenderable_body_shows_error:
  assumes "complete st" "response_ok status" "\<not> renders result"
  shows "fst (predictXray now (Response status (BodyJson result)) f st) = None \<and>
    text_at (snd (predictXray now (Response status (BodyJson result)) f st)) errorText =
      Some generic_failure \<and>
    shown (snd (predictXray now (Response status (BodyJson result)) f st)) errorMessage \<and>
    has_class (snd (predictXray now (Response status (BodyJson result)) f st)) resultsSection ''hidden'' \<and>
    has_class (snd (predictXray now (Response status (BodyJson result)) f st)) loading ''hidden'' \<and>
    LogError ''Prediction error:'' TypeError \<in>
      set (console (snd (predictXray now (Response status (BodyJson result)) f st)))"
proof -
  have ex: "\<exists>el. elements st h = Some el" for h
    using assms(1) by (simp add: complete_def)
  obtain l where l: "elements st loading = Some l" using ex by blast
  obtain m where m: "elements st errorMessage = Some m" using ex by blast
  obtain rc where rc: "elements st resultCard = Some rc" using ex by blast
  obtain rs where rs: "elements st resultsSection = Some rs" using ex by blast
  define st1 where "st1 = snd (predictXray_begin f st)"
  have bgn: "predictXray_begin f st = (None, st1)"
    unfolding st1_def using predictXray_begin_effect[OF l rs rc m] by simp
  have c1: "complete st1"
    unfolding st1_def using keeps_predictXray_begin assms(1) by (rule complete_keeps)
  define st2 where "st2 = snd (displayResults result st1)"
  have disp: "displayResults result st1 = (Some TypeError, st2)"
    using displayResults_throws[OF assms(3), of st1] unfolding st2_def
    by (cases "displayResults result st1") simp
  have c2: "complete st2"
    unfolding st2_def using keeps_displayResults c1 by (rule complete_keeps)
  then have ex2: "\<exists>el. elements st2 h = Some el" for h
    by (simp add: complete_def)
  obtain t2 where t2: "elements st2 errorText = Some t2" using ex2 by blast
  obtain m2 where m2: "elements st2 errorMessage = Some m2" using ex2 by blast
  obtain r2 where r2: "elements st2 resultsSection = Some r2" using ex2 by blast
  obtain l2 where l2: "elements st2 loading = Some l2" using ex2 by blast
  show ?thesis
    using t2 m2 r2 l2
    by (simp add: predictXray_def bgn resume_unrenderable[OF assms(2,3)] try_finally_def
        try_catch_def disp console_error_def showError_effect hideLoading_effect
        text_at_def shown_def has_class_def)
qed

theorem unrenderable_body_shows_error_witness:
  "complete sample_page \<and> response_ok 200 \<and>
   \<not> renders (JObj [(''predicted_class'', JStr ''Normal''), (''confidence'', JNum (decimal False 873 (- 1)))]) \<and>
   fst (predictXray mock_now
         (Response 200 (BodyJson (JObj [(''predicted_class'', JStr ''Normal''),
                                        (''confidence'', JNum (decimal False 873 (- 1)))])))
         sample_png sample_page) = None \<and>
   text_at (snd (predictXray mock_now
         (Response 200 (BodyJson (JObj [(''predicted_class'', JStr ''Normal''),
                                        (''confidence'', JNum (decimal False 873 (- 1)))])))
         sample_png sample_page)) errorText = Some ''Failed to analyze the image. Please try again.''"
  using unrenderable_body_shows_error
    [where st = sample_page and status = 200 and now = mock_now and f = sample_png
       and result = "JObj [(''predicted_class'', JStr ''Normal''),
                           (''confidence'', JNum (decimal False 873 (- 1)))]"]
  by (simp add: complete_def sample_page_def response_ok_def renders_def is_num_def member_def
      generic_failure_def)

theorem missing_class_counterexample:
  "get_prop classless_result ''predicted_class'' = Inr JUndefined \<and>
   response_ok 200 \<and>
   fst (predictXray mock_now (Response 200 (BodyJson classless_result)) sample_png sample_page) = None \<and>
   \<not> shown (snd (predictXray mock_now (Response 200 (BodyJson classless_result)) sample_png sample_page))
       errorMessage \<and>
   shown (snd (predictXray mock_now (Response 200 (BodyJson classless_result)) sample_png sample_page))
     resultCard"
proof -
  have c: "complete sample_page"
    by (simp add: complete_def sample_page_def)
  have ok: "response_ok 200"
    by (simp add: response_ok_def)
  have s: "fst (predictXray mock_now (Response 200 (BodyJson classless_result)) sample_png sample_page) = None \<and>
    shown (snd (predictXray mock_now (Response 200 (BodyJson classless_result)) sample_png sample_page)) resultCard \<and>
    has_class (snd (predictXray mock_now (Response 200 (BodyJson classless_result)) sample_png sample_page))
      errorMessage ''hidden''"
    using predictXray_success[OF c ok, where result = classless_result and cls = JUndefined
        and c = "decimal False 873 (- 1)"
        and probs = "JObj [(''Covid'', JNum (decimal False 42 (- 1))),
                    (''Pneumonia'', JNum (decimal False 85 (- 1))),
                    (''Normal'', JNum (decimal False 873 (- 1)))]"
        and ?p1.0 = "decimal False 42 (- 1)" and ?p2.0 = "decimal False 85 (- 1)"
        and ?p3.0 = "decimal False 873 (- 1)" and now = mock_now and f = sample_png]
    by (simp add: classless_result_def)
  have h: "\<not> shown st errorMessage" if "has_class st errorMessage ''hidden''" for st
    using that by (simp add: shown_def has_class_def split: option.splits)
  have g: "get_prop classless_result ''predicted_class'' = Inr JUndefined"
    by (simp add: classless_result_def)
  from s h g ok show ?thesis by blast
qed

end
